theory Spec2Isabelle
  imports Complex_Main
begin

section \<open>The loss engines of HugeCTR/src/loss.cu\<close>

text \<open>
  A shallow embedding of the three fused loss engines (CrossEntropyLoss,
  BinaryCrossEntropyLoss, MultiCrossEntropyLoss): their constructors, their CUDA kernels
  and the host functions that launch them.

  Conventions of the embedding.
  \<^item> \<open>float\<close> and \<open>double\<close> values are real numbers: rounding, infinities and NaN are
    not modelled, \<open>exp\<close> and \<open>log\<close> are the real exponential and natural logarithm.
    The arrays of the model hold the values of the expressions assigned to them; the
    rounding of a store into a \<open>float\<close> array is given apart, as \<open>float_store\<close>, for
    the one property that depends on it.
  \<^item> \<open>int\<close> values are integers; the products and sums of the source are assumed to
    stay inside the range of a 32-bit \<open>int\<close>. Division and remainder of \<open>int\<close> truncate
    towards zero, as in C.
  \<^item> Device memory is a map from buffer pointers to arrays of values. The three tensors
    of an engine are taken to be distinct allocations. Reading or writing beyond the end
    of an array or of a vector is undefined behaviour in the source; the model returns
    \<open>Undefined_Behaviour\<close> there.
  \<^item> The threads of a kernel run one after the other, in the order of their thread
    index. Every thread of these kernels reads and writes only the elements of the
    samples it owns, and the partial sums are combined after all threads are done.
  \<^item> A host function returns its outcome together with the state it leaves behind, so
    that the state after an exception is visible. Streams are not modelled: a launched
    kernel has run when the host function returns.
\<close>

subsection \<open>Errors, tensors, engines and the state of the devices\<close>

text \<open>The two values of \<open>Error_t\<close> that loss.cu throws (\<open>CK_THROW_\<close> with
  \<open>Error_t::WrongInput\<close>, \<open>CK_CUDA_THROW_\<close> with \<open>Error_t::CudaError\<close>).\<close>

datatype Error_t = WrongInput | CudaError

datatype failure = Throw Error_t | Undefined_Behaviour

datatype TensorFormat_t = HW | WH

record Tensor =
  dims :: "int list"
  format :: TensorFormat_t
  ptr :: nat

record Loss =
  device_id :: int
  input_tensors :: "Tensor list"
  label_tensors :: "Tensor list"
  loss_tensors :: "Tensor list"

record MultiLoss = Loss +
  target_weight :: Tensor

record world =
  cur_device :: int
  device_count :: int
  mem :: "nat \<Rightarrow> real list"
  next_free :: nat

text \<open>The macros of the build: the four gradient scales and \<open>NDEBUG\<close>.\<close>

record build =
  SCALE_128 :: bool
  SCALE_256 :: bool
  SCALE_512 :: bool
  SCALE_1024 :: bool
  NDEBUG :: bool

text \<open>The \<open>#ifdef SCALE_128 ... #elif SCALE_256 ... #else\<close> chain that every host function
  repeats.\<close>

definition scaler_of :: "build \<Rightarrow> int" where
  "scaler_of b =
     (if SCALE_128 b then 128
      else if SCALE_256 b then 256
      else if SCALE_512 b then 512
      else if SCALE_1024 b then 1024
      else 1)"

text \<open>\<open>v[i]\<close> on a \<open>std::vector\<close>.\<close>

definition vec_at :: "'a list \<Rightarrow> nat \<Rightarrow> failure + 'a" where
  "vec_at v i = (if i < length v then Inr (v ! i) else Inl Undefined_Behaviour)"

text \<open>An \<open>int\<close> index that lies inside an array.\<close>

definition in_buf :: "'a list \<Rightarrow> int \<Rightarrow> bool" where
  "in_buf a k = (0 \<le> k \<and> nat k < length a)"

text \<open>\<open>a / b\<close> and \<open>a % b\<close> on \<open>int\<close>.\<close>

definition c_div :: "int \<Rightarrow> int \<Rightarrow> int" where
  "c_div a b = sgn a * sgn b * (\<bar>a\<bar> div \<bar>b\<bar>)"

definition c_rem :: "int \<Rightarrow> int \<Rightarrow> int" where
  "c_rem a b = a - b * c_div a b"

text \<open>Modelled from the spec: \<open>get_set_device\<close> of utils.cuh is not among the sources. The
  spec's device-context collaborator captures the current device and switches to the
  given one; a switch to a device that does not exist is the failure of the device-context
  switch that \<open>CK_CUDA_THROW_\<close> turns into an exception. The result is the device that was
  current before (what the source receives through \<open>o_device\<close>) and the new state.\<close>

definition get_set_device :: "int \<Rightarrow> world \<Rightarrow> Error_t + (int \<times> world)" where
  "get_set_device n_device w =
     (if 0 \<le> n_device \<and> n_device < device_count w
      then Inr (cur_device w, w\<lparr>cur_device := n_device\<rparr>)
      else Inl CudaError)"

text \<open>The rule of the CUDA runtime for a launch configuration: a kernel runs only on a
  grid of at least one block and in blocks of 1 to 1024 threads. Any other configuration
  is a failed launch (invalid configuration): no thread runs.\<close>

definition launch_ok :: "int \<Rightarrow> int \<Rightarrow> bool" where
  "launch_ok grid block = (1 \<le> grid \<and> 1 \<le> block \<and> block \<le> 1024)"

subsection \<open>Constructors\<close>

text \<open>Modelled from the spec: the constructor of the base class \<open>Loss\<close> (loss.hpp) fixes
  the device and binds no tensor.\<close>

definition Loss_base :: "int \<Rightarrow> Loss" where
  "Loss_base dev =
     \<lparr>device_id = dev, input_tensors = [], label_tensors = [], loss_tensors = []\<rparr>"

definition push_tensors :: "Tensor \<Rightarrow> Tensor \<Rightarrow> Tensor \<Rightarrow> Loss \<Rightarrow> Loss" where
  "push_tensors input_tensor label_tensor loss_tensor this =
     this\<lparr>input_tensors := input_tensors this @ [input_tensor],
          label_tensors := label_tensors this @ [label_tensor],
          loss_tensors := loss_tensors this @ [loss_tensor]\<rparr>"

definition CrossEntropyLoss_new ::
  "Tensor \<Rightarrow> Tensor \<Rightarrow> Tensor \<Rightarrow> int \<Rightarrow> world \<Rightarrow> (failure + Loss) \<times> world" where
  "CrossEntropyLoss_new label_tensors_arg input_tensors_arg loss_tensors_arg dev w =
     (Inr (push_tensors input_tensors_arg label_tensors_arg loss_tensors_arg (Loss_base dev)), w)"

definition BinaryCrossEntropyLoss_new ::
  "Tensor \<Rightarrow> Tensor \<Rightarrow> Tensor \<Rightarrow> int \<Rightarrow> world \<Rightarrow> (failure + Loss) \<times> world" where
  "BinaryCrossEntropyLoss_new label_tensors_arg input_tensors_arg loss_tensors_arg dev w =
     (Inr (push_tensors input_tensors_arg label_tensors_arg loss_tensors_arg (Loss_base dev)), w)"

text \<open>The first test of the MultiCrossEntropyLoss constructor. The operands of \<open>||\<close> are
  evaluated from left to right and only until one holds, so the vectors are indexed only
  once both are known to have two entries.\<close>

definition multi_shape_mismatch :: "Tensor \<Rightarrow> Tensor \<Rightarrow> bool" where
  "multi_shape_mismatch label_tensor input_tensor =
     (if length (dims label_tensor) \<noteq> 2 then True
      else if format label_tensor \<noteq> HW then True
      else if length (dims input_tensor) \<noteq> 2 then True
      else if format input_tensor \<noteq> HW then True
      else if dims label_tensor ! 0 \<noteq> dims input_tensor ! 0 then True
      else dims label_tensor ! 1 \<noteq> dims input_tensor ! 1)"

text \<open>Modelled from the spec: \<open>GeneralBuffer\<close> and the \<open>Tensor\<close> constructor are not among
  the sources. The engine allocates its weight tensor, of shape \<open>{1, label columns}\<close>, on
  its device, and \<open>cudaMemcpy\<close> fills it with the first \<open>get_size\<close> values of the caller's
  weights.\<close>

definition alloc_target_weight :: "int \<Rightarrow> real list \<Rightarrow> world \<Rightarrow> Tensor \<times> world" where
  "alloc_target_weight columns weights w =
     (\<lparr>dims = [1, columns], format = HW, ptr = next_free w\<rparr>,
      w\<lparr>mem := (mem w)(next_free w := take (nat (1 * columns)) weights),
        next_free := Suc (next_free w)\<rparr>)"

definition MultiCrossEntropyLoss_new ::
  "Tensor \<Rightarrow> Tensor \<Rightarrow> Tensor \<Rightarrow> real list \<Rightarrow> int \<Rightarrow> world \<Rightarrow> (failure + MultiLoss) \<times> world" where
  "MultiCrossEntropyLoss_new label_tensor input_tensor loss_tensor weights dev w =
     (if multi_shape_mismatch label_tensor input_tensor then (Inl (Throw WrongInput), w)
      else if int (length weights) \<noteq> dims input_tensor ! 1 then (Inl (Throw WrongInput), w)
      else
        (case get_set_device dev w of
           Inl e \<Rightarrow> (Inl (Throw e), w)
         | Inr (o_device, w1) \<Rightarrow>
             (case alloc_target_weight (dims label_tensor ! 1) weights w1 of
                (tw, w2) \<Rightarrow>
                  (case get_set_device o_device w2 of
                     Inl e \<Rightarrow> (Inl (Throw e), w2)
                   | Inr (_, w3) \<Rightarrow>
                       (Inr (Loss.extend
                               (push_tensors input_tensor label_tensor loss_tensor (Loss_base dev))
                               \<lparr>target_weight = tw\<rparr>), w3)))))"

subsection \<open>Kernels\<close>

text \<open>The loop \<open>for (int i = tid; i < n; i += step) body\<close> that all three kernels share. A
  body that runs into undefined behaviour ends the loop. With \<open>step = 0\<close> the loop of
  the source does not end; \<open>None\<close> stands for that.\<close>

partial_function (option) for_stride ::
  "(nat \<Rightarrow> 's \<Rightarrow> failure + 's) \<Rightarrow> int \<Rightarrow> nat \<Rightarrow> nat \<Rightarrow> 's \<Rightarrow> (failure + 's) option" where
  "for_stride body n step i s =
     (if int i < n
      then (case body i s of
              Inl f \<Rightarrow> Some (Inl f)
            | Inr s' \<Rightarrow> for_stride body n step (i + step) s')
      else Some (Inr s))"

text \<open>The threads of a launch, one after the other. A thread receives the array the
  threads before it left and returns it with its own partial sum; the partial sums are
  collected in the order of the threads.\<close>

fun run_threads ::
  "(nat \<Rightarrow> real list \<Rightarrow> (failure + real list \<times> real) option) \<Rightarrow> nat list \<Rightarrow> real list \<Rightarrow>
   (failure + real list \<times> real list) option" where
  "run_threads thread [] input = Some (Inr (input, []))"
| "run_threads thread (tid # tids) input =
     (case thread tid input of
        None \<Rightarrow> None
      | Some (Inl f) \<Rightarrow> Some (Inl f)
      | Some (Inr (input1, loss_s)) \<Rightarrow>
          (case run_threads thread tids input1 of
             None \<Rightarrow> None
           | Some (Inl f) \<Rightarrow> Some (Inl f)
           | Some (Inr (input2, slots)) \<Rightarrow> Some (Inr (input2, loss_s # slots))))"

paragraph \<open>CrossEntropy_Kernel\<close>

text \<open>The body of the sample loop, lines 44 to 59. The state is the input array and the
  thread's slot \<open>loss_s[tid]\<close>.\<close>

definition CrossEntropy_sample ::
  "real list \<Rightarrow> int \<Rightarrow> int \<Rightarrow> bool \<Rightarrow> int \<Rightarrow> nat \<Rightarrow> real list \<times> real \<Rightarrow> failure + real list \<times> real" where
  "CrossEntropy_sample label batch_size feature_dim row_major scaler i st =
     (case st of (input, loss_s) \<Rightarrow>
        let id1 = (if row_major then int i * feature_dim else int i);
            id2 = (if row_major then int i * feature_dim + 1 else int i + batch_size)
        in if in_buf input id1 \<and> in_buf input id2 \<and> i < length label
           then
             let z0_exp = exp (input ! nat id1);
                 z1_exp = exp (input ! nat id2);
                 a0 = z0_exp / (z0_exp + z1_exp);
                 a1 = z1_exp / (z0_exp + z1_exp);
                 no_click = (label ! i < 1 / 2);
                 input1 = input[nat id1 :=
                   (a0 - (if no_click then 1 else 0)) / real_of_int batch_size * real_of_int scaler];
                 input2 = input1[nat id2 :=
                   (a1 - (if \<not> no_click then 1 else 0)) / real_of_int batch_size * real_of_int scaler]
             in Inr (input2, loss_s + - 1 * ln (if no_click then a0 else a1))
           else Inl Undefined_Behaviour)"

text \<open>One block of \<open>blockDim\<close> threads; thread 0 adds the slots up and writes the mean.\<close>

definition CrossEntropy_Kernel ::
  "nat \<Rightarrow> real list \<Rightarrow> real list \<Rightarrow> real list \<Rightarrow> int \<Rightarrow> int \<Rightarrow> bool \<Rightarrow> int \<Rightarrow>
   (failure + real list \<times> real list) option" where
  "CrossEntropy_Kernel blockDim input label cel_loss batch_size feature_dim row_major scaler =
     (case run_threads
             (\<lambda>tid inp. for_stride
                (CrossEntropy_sample label batch_size feature_dim row_major scaler)
                batch_size blockDim tid (inp, 0))
             [0..<blockDim] input of
        None \<Rightarrow> None
      | Some (Inl f) \<Rightarrow> Some (Inl f)
      | Some (Inr (input', loss_s)) \<Rightarrow>
          (let loss_tmp = foldl (+) 0 loss_s
           in if cel_loss = [] then Some (Inl Undefined_Behaviour)
              else Some (Inr (input', cel_loss[0 := loss_tmp / real_of_int batch_size]))))"

paragraph \<open>BinaryCrossEntropy_Kernel\<close>

text \<open>The constants \<open>MIN_\<close> (here \<open>MIN_eps\<close>) and \<open>MIN_X\<close> of the kernel and of the two
  device functions below.\<close>

definition MIN_eps :: real where
  "MIN_eps = 1 / 10 ^ 6"

definition MIN_X :: real where
  "MIN_X = - 707"

text \<open>The body of the sample loop, lines 149 to 157.\<close>

definition BinaryCrossEntropy_sample ::
  "real list \<Rightarrow> int \<Rightarrow> int \<Rightarrow> nat \<Rightarrow> real list \<times> real \<Rightarrow> failure + real list \<times> real" where
  "BinaryCrossEntropy_sample label scaler batch_size i st =
     (case st of (input, loss_s) \<Rightarrow>
        if i < length input \<and> i < length label
        then
          let x = (if input ! i < MIN_X then MIN_X else input ! i);
              exp_neg_x = exp (- x);
              val = 1 / (1 + exp_neg_x);
              y = label ! i
          in Inr (input[i := - 1 * val * (y - val) * exp_neg_x / (1 - val + MIN_eps)
                               / real_of_int batch_size * real_of_int scaler],
                  loss_s + (y * ln (val + MIN_eps) + (1 - y) * ln (1 - val + MIN_eps)))
        else Inl Undefined_Behaviour)"

definition BinaryCrossEntropy_Kernel ::
  "nat \<Rightarrow> real list \<Rightarrow> real list \<Rightarrow> real list \<Rightarrow> int \<Rightarrow> int \<Rightarrow>
   (failure + real list \<times> real list) option" where
  "BinaryCrossEntropy_Kernel blockDim input label bce_loss scaler batch_size =
     (case run_threads
             (\<lambda>tid inp. for_stride (BinaryCrossEntropy_sample label scaler batch_size)
                batch_size blockDim tid (inp, 0))
             [0..<blockDim] input of
        None \<Rightarrow> None
      | Some (Inl f) \<Rightarrow> Some (Inl f)
      | Some (Inr (input', loss_s)) \<Rightarrow>
          (let loss_tmp = foldl (+) 0 loss_s
           in if bce_loss = [] then Some (Inl Undefined_Behaviour)
              else Some (Inr (input', bce_loss[0 := - loss_tmp / real_of_int batch_size]))))"

paragraph \<open>MultiCrossEntropy_Kernel\<close>

definition cross_entropy_loss :: "real \<Rightarrow> real \<Rightarrow> real" where
  "cross_entropy_loss x y =
     (let exp_neg_x = (if x < MIN_X then exp (- MIN_X) else exp (- x));
          val = 1 / (1 + exp_neg_x)
      in y * ln (val + MIN_eps) + (1 - y) * ln (1 - val + MIN_eps))"

definition cross_entropy_loss_backward :: "real \<Rightarrow> real \<Rightarrow> real" where
  "cross_entropy_loss_backward x y =
     (let exp_neg_x = (if x < MIN_X then exp (- MIN_X) else exp (- x));
          val = 1 / (1 + exp_neg_x)
      in - 1 * val * (y - val) * exp_neg_x / (1 - val + MIN_eps))"

text \<open>The body of the element loop, lines 247 to 255 (\<open>sz\<close> is the \<open>size\<close> of the
  source). The weight is read only in the branch of an element that is not masked.\<close>

definition MultiCrossEntropy_elem ::
  "real list \<Rightarrow> real list \<Rightarrow> int \<Rightarrow> int \<Rightarrow> int \<Rightarrow> nat \<Rightarrow> real list \<times> real \<Rightarrow>
   failure + real list \<times> real" where
  "MultiCrossEntropy_elem label weights labels_per_sample sz scaler i st =
     (case st of (input, loss_s) \<Rightarrow>
        if labels_per_sample = 0 then Inl Undefined_Behaviour
        else
          let target_weight_idx = c_rem (int i) labels_per_sample
          in if i < length input \<and> i < length label
             then
               let x = input ! i;
                   y = label ! i
               in if label ! i < - (1 / 2) then Inr (input[i := 0], loss_s + 0)
                  else if in_buf weights target_weight_idx
                  then Inr (input[i := weights ! nat target_weight_idx
                                        * cross_entropy_loss_backward x y
                                        / real_of_int sz * real_of_int scaler],
                            loss_s + weights ! nat target_weight_idx * cross_entropy_loss x y)
                  else Inl Undefined_Behaviour
             else Inl Undefined_Behaviour)"

text \<open>The global thread indices \<open>threadIdx.x + blockDim.x * blockIdx.x\<close> of a grid, block
  after block.\<close>

definition grid_threads :: "nat \<Rightarrow> nat \<Rightarrow> nat list" where
  "grid_threads gridDim blockDim =
     concat (map (\<lambda>blockIdx. map (\<lambda>threadIdx. threadIdx + blockDim * blockIdx) [0..<blockDim])
                 [0..<gridDim])"

text \<open>Modelled from the spec: \<open>atomic_global_sum_div\<close> of utils.cuh is not among the
  sources. Every thread adds its value, divided by the element count, to the scalar the
  pointer names.\<close>

definition atomic_global_sum_div :: "real \<Rightarrow> real \<Rightarrow> int \<Rightarrow> real" where
  "atomic_global_sum_div val acc sz = acc + val / real_of_int sz"

definition MultiCrossEntropy_Kernel ::
  "nat \<Rightarrow> nat \<Rightarrow> real list \<Rightarrow> real list \<Rightarrow> real list \<Rightarrow> real list \<Rightarrow> int \<Rightarrow> int \<Rightarrow> int \<Rightarrow>
   (failure + real list \<times> real list) option" where
  "MultiCrossEntropy_Kernel gridDim blockDim input label weights bce_loss batchsize
       labels_per_sample scaler =
     (let num_threads = blockDim * gridDim;
          sz = batchsize * labels_per_sample
      in case run_threads
                (\<lambda>tid inp. for_stride
                   (MultiCrossEntropy_elem label weights labels_per_sample sz scaler)
                   sz num_threads tid (inp, 0))
                (grid_threads gridDim blockDim) input of
           None \<Rightarrow> None
         | Some (Inl f) \<Rightarrow> Some (Inl f)
         | Some (Inr (input', loss_s)) \<Rightarrow>
             if bce_loss = [] then Some (Inl Undefined_Behaviour)
             else Some (Inr (input',
                    bce_loss[0 := foldl (\<lambda>acc l. atomic_global_sum_div (- l) acc sz)
                                        (bce_loss ! 0) loss_s])))"

subsection \<open>Host functions\<close>

paragraph \<open>CrossEntropyLoss::fused_loss_computation\<close>

text \<open>Lines 79 to 95: the checks, and the batch size, feature dimension and layout they
  yield.\<close>

definition CrossEntropyLoss_checks :: "Tensor \<Rightarrow> Tensor \<Rightarrow> failure + (int \<times> int \<times> bool)" where
  "CrossEntropyLoss_checks input_tensor label_tensor =
     (if format input_tensor \<noteq> format label_tensor then Inl (Throw WrongInput)
      else
        let row_major = (format input_tensor = HW);
            input_dim = dims input_tensor;
            label_dim = dims label_tensor
        in case vec_at input_dim (if row_major then 0 else 1) of
             Inl f \<Rightarrow> Inl f
           | Inr batch_size \<Rightarrow>
        (case vec_at input_dim (if row_major then 1 else 0) of
             Inl f \<Rightarrow> Inl f
           | Inr feature_dim \<Rightarrow>
               if feature_dim \<noteq> 2 then Inl (Throw WrongInput)
               else if row_major
               then (case vec_at label_dim 0 of
                       Inl f \<Rightarrow> Inl f
                     | Inr label_dim0 \<Rightarrow>
                         if input_dim ! 0 \<noteq> label_dim0 then Inl (Throw WrongInput)
                         else Inr (batch_size, feature_dim, row_major))
               else (case vec_at label_dim 1 of
                       Inl f \<Rightarrow> Inl f
                     | Inr label_dim1 \<Rightarrow>
                         if input_dim ! 1 \<noteq> label_dim1 then Inl (Throw WrongInput)
                         else Inr (batch_size, feature_dim, row_major))))"

text \<open>Lines 97 to 123: the launch on one block of \<open>min(batch_size, 1024)\<close> threads. A
  failed launch is seen only by the check of a debug build.\<close>

definition CrossEntropyLoss_launch ::
  "build \<Rightarrow> Tensor \<Rightarrow> Tensor \<Rightarrow> Tensor \<Rightarrow> int \<Rightarrow> int \<Rightarrow> bool \<Rightarrow> world \<Rightarrow>
   ((failure + unit) \<times> world) option" where
  "CrossEntropyLoss_launch b input_tensor label_tensor loss_tensor batch_size feature_dim
       row_major w =
     (let input = mem w (ptr input_tensor);
          label = mem w (ptr label_tensor);
          cel_loss = mem w (ptr loss_tensor);
          block_size = min batch_size 1024;
          scaler = scaler_of b
      in if launch_ok 1 block_size
         then (case CrossEntropy_Kernel (nat block_size) input label cel_loss batch_size
                      feature_dim row_major scaler of
                 None \<Rightarrow> None
               | Some (Inl f) \<Rightarrow> Some (Inl f, w)
               | Some (Inr (input1, cel_loss1)) \<Rightarrow>
                   Some (Inr (), w\<lparr>mem := (mem w)(ptr input_tensor := input1,
                                                  ptr loss_tensor := cel_loss1)\<rparr>))
         else if NDEBUG b then Some (Inr (), w)
         else Some (Inl (Throw CudaError), w))"

text \<open>Lines 75 to 123, what runs between the two device switches.\<close>

definition CrossEntropyLoss_compute ::
  "build \<Rightarrow> Loss \<Rightarrow> world \<Rightarrow> ((failure + unit) \<times> world) option" where
  "CrossEntropyLoss_compute b this w =
     (case vec_at (input_tensors this) 0 of
        Inl f \<Rightarrow> Some (Inl f, w)
      | Inr input_tensor \<Rightarrow>
     (case vec_at (label_tensors this) 0 of
        Inl f \<Rightarrow> Some (Inl f, w)
      | Inr label_tensor \<Rightarrow>
     (case vec_at (loss_tensors this) 0 of
        Inl f \<Rightarrow> Some (Inl f, w)
      | Inr loss_tensor \<Rightarrow>
     (case CrossEntropyLoss_checks input_tensor label_tensor of
        Inl f \<Rightarrow> Some (Inl f, w)
      | Inr (batch_size, feature_dim, row_major) \<Rightarrow>
          CrossEntropyLoss_launch b input_tensor label_tensor loss_tensor batch_size
            feature_dim row_major w))))"

text \<open>The whole function. An exception of the part in between leaves the function at
  once: the second \<open>get_set_device\<close>, on line 125, is reached only when that part returns.\<close>

definition CrossEntropyLoss_fused_loss_computation ::
  "build \<Rightarrow> Loss \<Rightarrow> world \<Rightarrow> ((failure + unit) \<times> world) option" where
  "CrossEntropyLoss_fused_loss_computation b this w =
     (case get_set_device (device_id this) w of
        Inl e \<Rightarrow> Some (Inl (Throw e), w)
      | Inr (o_device, w1) \<Rightarrow>
          (case CrossEntropyLoss_compute b this w1 of
             None \<Rightarrow> None
           | Some (Inl f, w2) \<Rightarrow> Some (Inl f, w2)
           | Some (Inr u, w2) \<Rightarrow>
               (case get_set_device o_device w2 of
                  Inl e \<Rightarrow> Some (Inl (Throw e), w2)
                | Inr (d, w3) \<Rightarrow> Some (Inr (), w3))))"

paragraph \<open>BinaryCrossEntropyLoss::fused_loss_computation\<close>

text \<open>Lines 176 to 188: the checks, and the batch size they yield.\<close>

definition BinaryCrossEntropyLoss_checks :: "Tensor \<Rightarrow> Tensor \<Rightarrow> failure + int" where
  "BinaryCrossEntropyLoss_checks input_tensor label_tensor =
     (if format input_tensor \<noteq> format label_tensor then Inl (Throw WrongInput)
      else
        let row_major = (format input_tensor = HW);
            input_dim = dims input_tensor
        in case vec_at input_dim (if row_major then 0 else 1) of
             Inl f \<Rightarrow> Inl f
           | Inr batch_size \<Rightarrow>
        (case vec_at input_dim (if row_major then 1 else 0) of
             Inl f \<Rightarrow> Inl f
           | Inr feature_dim \<Rightarrow>
               if feature_dim \<noteq> 1 then Inl (Throw WrongInput)
               else Inr batch_size))"

text \<open>Lines 190 to 216.\<close>

definition BinaryCrossEntropyLoss_launch ::
  "build \<Rightarrow> Tensor \<Rightarrow> Tensor \<Rightarrow> Tensor \<Rightarrow> int \<Rightarrow> world \<Rightarrow> ((failure + unit) \<times> world) option" where
  "BinaryCrossEntropyLoss_launch b input_tensor label_tensor loss_tensor batch_size w =
     (let input = mem w (ptr input_tensor);
          label = mem w (ptr label_tensor);
          bce_loss = mem w (ptr loss_tensor);
          block_size = min batch_size 1024;
          scaler = scaler_of b
      in if launch_ok 1 block_size
         then (case BinaryCrossEntropy_Kernel (nat block_size) input label bce_loss scaler
                      batch_size of
                 None \<Rightarrow> None
               | Some (Inl f) \<Rightarrow> Some (Inl f, w)
               | Some (Inr (input1, bce_loss1)) \<Rightarrow>
                   Some (Inr (), w\<lparr>mem := (mem w)(ptr input_tensor := input1,
                                                  ptr loss_tensor := bce_loss1)\<rparr>))
         else if NDEBUG b then Some (Inr (), w)
         else Some (Inl (Throw CudaError), w))"

definition BinaryCrossEntropyLoss_compute ::
  "build \<Rightarrow> Loss \<Rightarrow> world \<Rightarrow> ((failure + unit) \<times> world) option" where
  "BinaryCrossEntropyLoss_compute b this w =
     (case vec_at (input_tensors this) 0 of
        Inl f \<Rightarrow> Some (Inl f, w)
      | Inr input_tensor \<Rightarrow>
     (case vec_at (label_tensors this) 0 of
        Inl f \<Rightarrow> Some (Inl f, w)
      | Inr label_tensor \<Rightarrow>
     (case vec_at (loss_tensors this) 0 of
        Inl f \<Rightarrow> Some (Inl f, w)
      | Inr loss_tensor \<Rightarrow>
     (case BinaryCrossEntropyLoss_checks input_tensor label_tensor of
        Inl f \<Rightarrow> Some (Inl f, w)
      | Inr batch_size \<Rightarrow>
          BinaryCrossEntropyLoss_launch b input_tensor label_tensor loss_tensor batch_size w))))"

definition BinaryCrossEntropyLoss_fused_loss_computation ::
  "build \<Rightarrow> Loss \<Rightarrow> world \<Rightarrow> ((failure + unit) \<times> world) option" where
  "BinaryCrossEntropyLoss_fused_loss_computation b this w =
     (case get_set_device (device_id this) w of
        Inl e \<Rightarrow> Some (Inl (Throw e), w)
      | Inr (o_device, w1) \<Rightarrow>
          (case BinaryCrossEntropyLoss_compute b this w1 of
             None \<Rightarrow> None
           | Some (Inl f, w2) \<Rightarrow> Some (Inl f, w2)
           | Some (Inr u, w2) \<Rightarrow>
               (case get_set_device o_device w2 of
                  Inl e \<Rightarrow> Some (Inl (Throw e), w2)
                | Inr (d, w3) \<Rightarrow> Some (Inr (), w3))))"

paragraph \<open>MultiCrossEntropyLoss::fused_loss_computation\<close>

text \<open>Lines 276 and 277.\<close>

definition BLOCK_SIZE :: int where
  "BLOCK_SIZE = 256"

definition GRID_SIZE :: "int \<Rightarrow> int \<Rightarrow> int" where
  "GRID_SIZE batchsize labels_per_sample =
     min 40 (c_div (batchsize * labels_per_sample - 1) BLOCK_SIZE)"

text \<open>Lines 270 to 299. \<open>cudaMemsetAsync\<close> clears the loss tensor before the launch,
  whether the launch succeeds or not.\<close>

definition MultiCrossEntropyLoss_compute ::
  "build \<Rightarrow> MultiLoss \<Rightarrow> world \<Rightarrow> ((failure + unit) \<times> world) option" where
  "MultiCrossEntropyLoss_compute b this w =
     (case vec_at (input_tensors this) 0 of
        Inl f \<Rightarrow> Some (Inl f, w)
      | Inr input_tensor \<Rightarrow>
     (case vec_at (label_tensors this) 0 of
        Inl f \<Rightarrow> Some (Inl f, w)
      | Inr label_tensor \<Rightarrow>
     (case vec_at (loss_tensors this) 0 of
        Inl f \<Rightarrow> Some (Inl f, w)
      | Inr loss_tensor \<Rightarrow>
     (case vec_at (dims input_tensor) 0 of
        Inl f \<Rightarrow> Some (Inl f, w)
      | Inr batchsize \<Rightarrow>
     (case vec_at (dims input_tensor) 1 of
        Inl f \<Rightarrow> Some (Inl f, w)
      | Inr labels_per_sample \<Rightarrow>
          (let w1 = w\<lparr>mem := (mem w)(ptr loss_tensor :=
                         map (\<lambda>v. 0) (mem w (ptr loss_tensor)))\<rparr>;
               input = mem w1 (ptr input_tensor);
               label = mem w1 (ptr label_tensor);
               loss = mem w1 (ptr loss_tensor);
               weights = mem w1 (ptr (target_weight this));
               scaler = scaler_of b
           in if launch_ok (GRID_SIZE batchsize labels_per_sample) BLOCK_SIZE
              then (case MultiCrossEntropy_Kernel
                           (nat (GRID_SIZE batchsize labels_per_sample)) (nat BLOCK_SIZE)
                           input label weights loss batchsize labels_per_sample scaler of
                      None \<Rightarrow> None
                    | Some (Inl f) \<Rightarrow> Some (Inl f, w1)
                    | Some (Inr (input1, loss1)) \<Rightarrow>
                        Some (Inr (), w1\<lparr>mem := (mem w1)(ptr input_tensor := input1,
                                                        ptr loss_tensor := loss1)\<rparr>))
              else if NDEBUG b then Some (Inr (), w1)
              else Some (Inl (Throw CudaError), w1)))))))"

definition MultiCrossEntropyLoss_fused_loss_computation ::
  "build \<Rightarrow> MultiLoss \<Rightarrow> world \<Rightarrow> ((failure + unit) \<times> world) option" where
  "MultiCrossEntropyLoss_fused_loss_computation b this w =
     (case get_set_device (device_id this) w of
        Inl e \<Rightarrow> Some (Inl (Throw e), w)
      | Inr (o_device, w1) \<Rightarrow>
          (case MultiCrossEntropyLoss_compute b this w1 of
             None \<Rightarrow> None
           | Some (Inl f, w2) \<Rightarrow> Some (Inl f, w2)
           | Some (Inr u, w2) \<Rightarrow>
               (case get_set_device o_device w2 of
                  Inl e \<Rightarrow> Some (Inl (Throw e), w2)
                | Inr (d, w3) \<Rightarrow> Some (Inr (), w3))))"

subsection \<open>Definitions that follow the specification\<close>

text \<open>The block count as the specification states it: at most 40, and not more than
  \<open>ceil(totalElements / 256)\<close>.\<close>

definition spec_GRID_SIZE :: "int \<Rightarrow> int \<Rightarrow> int" where
  "spec_GRID_SIZE batchsize labels_per_sample =
     min 40 \<lceil>real_of_int (batchsize * labels_per_sample) / 256\<rceil>"

text \<open>The batch dimension and the feature dimension of a 2-dimensional tensor: rows are
  samples in the layout \<open>HW\<close>, columns are samples in the layout \<open>WH\<close>.\<close>

definition spec_batch_dim :: "Tensor \<Rightarrow> int" where
  "spec_batch_dim t = (if format t = HW then dims t ! 0 else dims t ! 1)"

definition spec_feature_dim :: "Tensor \<Rightarrow> int" where
  "spec_feature_dim t = (if format t = HW then dims t ! 1 else dims t ! 0)"

text \<open>The formulas of BinaryCrossEntropyLoss as the specification words them: the logit
  clamped to a floor of \<open>-707\<close>, the sigmoid \<open>val\<close>, the loss term of a sample and its
  gradient, with \<open>\<epsilon> = 1e-6\<close>.\<close>

definition spec_eps :: real where
  "spec_eps = 1 / 1000000"

definition spec_bce_clamp :: "real \<Rightarrow> real" where
  "spec_bce_clamp x = max x (- 707)"

definition spec_bce_val :: "real \<Rightarrow> real" where
  "spec_bce_val x = 1 / (1 + exp (- spec_bce_clamp x))"

definition spec_bce_term :: "real \<Rightarrow> real \<Rightarrow> real" where
  "spec_bce_term x y =
     y * ln (spec_bce_val x + spec_eps) + (1 - y) * ln (1 - spec_bce_val x + spec_eps)"

definition spec_bce_gradient :: "real \<Rightarrow> real \<Rightarrow> int \<Rightarrow> int \<Rightarrow> real" where
  "spec_bce_gradient x y batchSize scaler =
     - spec_bce_val x * (y - spec_bce_val x) * exp (- spec_bce_clamp x)
       / (1 - spec_bce_val x + spec_eps) / real_of_int batchSize * real_of_int scaler"

text \<open>The softmax probability of a logit against the other logit of its pair, and the
  class indicator as the specification words it: a label of exactly 1.0 is the positive
  class (class 1), every other label the negative class (class 0); the gradient of class
  \<open>c\<close> is \<open>(a_c - indicator(label == c)) / batchSize * scaler\<close>.\<close>

definition spec_softmax :: "real \<Rightarrow> real \<Rightarrow> real" where
  "spec_softmax z other = exp z / (exp z + exp other)"

definition spec_ce_indicator :: "real \<Rightarrow> nat \<Rightarrow> real" where
  "spec_ce_indicator label c = (if (if label = 1 then 1 else 0) = c then 1 else 0)"

definition spec_ce_gradient :: "real \<Rightarrow> real \<Rightarrow> nat \<Rightarrow> int \<Rightarrow> int \<Rightarrow> real" where
  "spec_ce_gradient a label c batchSize scaler =
     (a - spec_ce_indicator label c) / real_of_int batchSize * real_of_int scaler"

subsection \<open>Auxiliary definitions\<close>

text \<open>The indices a thread visits in its loop, and the loop as a fold over them. They serve
  the proofs only; the step is positive in every launched kernel.\<close>

function stride_list :: "int \<Rightarrow> nat \<Rightarrow> nat \<Rightarrow> nat list" where
  "stride_list n step i = (if int i < n \<and> 0 < step then i # stride_list n step (i + step) else [])"
  by pat_completeness auto

termination
  by (relation "measure (\<lambda>(n, step, i). nat n - i)") auto

declare stride_list.simps [simp del]

primrec fold_samples :: "(nat \<Rightarrow> 's \<Rightarrow> failure + 's) \<Rightarrow> nat list \<Rightarrow> 's \<Rightarrow> failure + 's" where
  "fold_samples body [] s = Inr s"
| "fold_samples body (i # js) s =
     (case body i s of Inl f \<Rightarrow> Inl f | Inr s' \<Rightarrow> fold_samples body js s')"

text \<open>A loop body is local when sample \<open>i\<close> reads and writes only its own cells of the
  array, the cells of different samples being disjoint: \<open>ok\<close> says that every access is
  inside its array, \<open>wr\<close> is the array after the body, \<open>tm\<close> what the body adds to the
  partial sum.\<close>

definition sample_local ::
  "(nat \<Rightarrow> real list \<times> real \<Rightarrow> failure + real list \<times> real) \<Rightarrow> (nat \<Rightarrow> real list \<Rightarrow> bool) \<Rightarrow>
   (nat \<Rightarrow> real list \<Rightarrow> real list) \<Rightarrow> (nat \<Rightarrow> real list \<Rightarrow> real) \<Rightarrow> (nat \<Rightarrow> nat set) \<Rightarrow>
   nat set \<Rightarrow> bool" where
  "sample_local body ok wr tm cells I =
     ((\<forall>i inp acc. body i (inp, acc) =
          (if ok i inp then Inr (wr i inp, acc + tm i inp) else Inl Undefined_Behaviour)) \<and>
      (\<forall>i inp. length (wr i inp) = length inp) \<and>
      (\<forall>i inp p. p \<notin> cells i \<longrightarrow> wr i inp ! p = inp ! p) \<and>
      (\<forall>i inp inp'. length inp = length inp' \<and> (\<forall>p\<in>cells i. inp ! p = inp' ! p) \<and>
          ok i inp' \<longrightarrow>
          ok i inp \<and> tm i inp = tm i inp' \<and>
          (\<forall>p\<in>cells i. wr i inp ! p = wr i inp' ! p)) \<and>
      (\<forall>i\<in>I. \<forall>j\<in>I. i \<noteq> j \<longrightarrow> cells i \<inter> cells j = {}))"

text \<open>What the body of CrossEntropy_Kernel reads and computes for sample \<open>i\<close>: the two
  positions \<open>id1\<close> and \<open>id2\<close> (as array indices), the two gradients and the loss term, as
  functions of the two logits and the label.\<close>

definition ce_id1 :: "bool \<Rightarrow> int \<Rightarrow> nat \<Rightarrow> nat" where
  "ce_id1 row_major feature_dim i = nat (if row_major then int i * feature_dim else int i)"

definition ce_id2 :: "bool \<Rightarrow> int \<Rightarrow> int \<Rightarrow> nat \<Rightarrow> nat" where
  "ce_id2 row_major feature_dim batch_size i =
     nat (if row_major then int i * feature_dim + 1 else int i + batch_size)"

definition ce_sample_grad0 :: "real \<Rightarrow> real \<Rightarrow> real \<Rightarrow> int \<Rightarrow> int \<Rightarrow> real" where
  "ce_sample_grad0 x0 x1 y batch_size scaler =
     (let z0_exp = exp x0; z1_exp = exp x1;
          a0 = z0_exp / (z0_exp + z1_exp);
          no_click = (y < 1 / 2)
      in (a0 - (if no_click then 1 else 0)) / real_of_int batch_size * real_of_int scaler)"

definition ce_sample_grad1 :: "real \<Rightarrow> real \<Rightarrow> real \<Rightarrow> int \<Rightarrow> int \<Rightarrow> real" where
  "ce_sample_grad1 x0 x1 y batch_size scaler =
     (let z0_exp = exp x0; z1_exp = exp x1;
          a1 = z1_exp / (z0_exp + z1_exp);
          no_click = (y < 1 / 2)
      in (a1 - (if \<not> no_click then 1 else 0)) / real_of_int batch_size * real_of_int scaler)"

definition ce_sample_term :: "real \<Rightarrow> real \<Rightarrow> real \<Rightarrow> real" where
  "ce_sample_term x0 x1 y =
     (let z0_exp = exp x0; z1_exp = exp x1;
          a0 = z0_exp / (z0_exp + z1_exp);
          a1 = z1_exp / (z0_exp + z1_exp);
          no_click = (y < 1 / 2)
      in - 1 * ln (if no_click then a0 else a1))"

definition ce_ok :: "real list \<Rightarrow> bool \<Rightarrow> int \<Rightarrow> nat \<Rightarrow> real list \<Rightarrow> bool" where
  "ce_ok label row_major batch_size i inp =
     (ce_id1 row_major 2 i < length inp \<and> ce_id2 row_major 2 batch_size i < length inp \<and>
      0 \<le> (if row_major then int i * 2 + 1 else int i + batch_size) \<and> i < length label)"

definition ce_write :: "real list \<Rightarrow> bool \<Rightarrow> int \<Rightarrow> int \<Rightarrow> nat \<Rightarrow> real list \<Rightarrow> real list" where
  "ce_write label row_major batch_size scaler i inp =
     inp[ce_id1 row_major 2 i :=
           ce_sample_grad0 (inp ! ce_id1 row_major 2 i) (inp ! ce_id2 row_major 2 batch_size i)
             (label ! i) batch_size scaler,
         ce_id2 row_major 2 batch_size i :=
           ce_sample_grad1 (inp ! ce_id1 row_major 2 i) (inp ! ce_id2 row_major 2 batch_size i)
             (label ! i) batch_size scaler]"

definition ce_term :: "real list \<Rightarrow> bool \<Rightarrow> int \<Rightarrow> nat \<Rightarrow> real list \<Rightarrow> real" where
  "ce_term label row_major batch_size i inp =
     ce_sample_term (inp ! ce_id1 row_major 2 i) (inp ! ce_id2 row_major 2 batch_size i)
       (label ! i)"

definition ce_cells :: "bool \<Rightarrow> int \<Rightarrow> nat \<Rightarrow> nat set" where
  "ce_cells row_major batch_size i = {ce_id1 row_major 2 i, ce_id2 row_major 2 batch_size i}"

text \<open>The same for BinaryCrossEntropy_Kernel and MultiCrossEntropy_Kernel, whose samples
  own one position each.\<close>

definition bce_sample_grad :: "real \<Rightarrow> real \<Rightarrow> int \<Rightarrow> int \<Rightarrow> real" where
  "bce_sample_grad x0 y batch_size scaler =
     (let x = (if x0 < MIN_X then MIN_X else x0);
          exp_neg_x = exp (- x);
          val = 1 / (1 + exp_neg_x)
      in - 1 * val * (y - val) * exp_neg_x / (1 - val + MIN_eps)
           / real_of_int batch_size * real_of_int scaler)"

definition bce_sample_term :: "real \<Rightarrow> real \<Rightarrow> real" where
  "bce_sample_term x0 y =
     (let x = (if x0 < MIN_X then MIN_X else x0);
          exp_neg_x = exp (- x);
          val = 1 / (1 + exp_neg_x)
      in y * ln (val + MIN_eps) + (1 - y) * ln (1 - val + MIN_eps))"

definition mce_elem_grad :: "real list \<Rightarrow> int \<Rightarrow> int \<Rightarrow> int \<Rightarrow> nat \<Rightarrow> real \<Rightarrow> real \<Rightarrow> real" where
  "mce_elem_grad weights labels_per_sample sz scaler i x y =
     (if y < - (1 / 2) then 0
      else weights ! nat (c_rem (int i) labels_per_sample) * cross_entropy_loss_backward x y
             / real_of_int sz * real_of_int scaler)"

definition mce_elem_term :: "real list \<Rightarrow> int \<Rightarrow> nat \<Rightarrow> real \<Rightarrow> real \<Rightarrow> real" where
  "mce_elem_term weights labels_per_sample i x y =
     (if y < - (1 / 2) then 0
      else weights ! nat (c_rem (int i) labels_per_sample) * cross_entropy_loss x y)"

subsection \<open>The store into a \<open>float\<close> array\<close>





section \<open>Properties\<close>

subsection \<open>The grid of MultiCrossEntropyLoss\<close>

lemma ceiling_div_256: "\<lceil>real_of_int n / 256\<rceil> = (n + 255) div 256"
proof -
  have "\<lceil>real_of_int n / real_of_int 256\<rceil> = - (- n div 256)"
    by (rule ceiling_divide_eq_div)
  then show ?thesis by simp
qed

text \<open>For a positive element count the source computes the rounded-up quotient less
  one: \<open>(n - 1) / 256\<close> lacks the \<open>+ 1\<close> of the usual rounding-up division.\<close>

lemma GRID_SIZE_is_ceiling_minus_one:
  "0 < B * L \<Longrightarrow> GRID_SIZE B L = min 40 (\<lceil>real_of_int (B * L) / 256\<rceil> - 1)"
  unfolding GRID_SIZE_def BLOCK_SIZE_def c_div_def ceiling_div_256
  by (cases "B * L = 1") (auto simp: sgn_if)

text \<open>What a grid of 0 blocks means for the engine: on one sample with one label, a build
  with \<open>NDEBUG\<close> clears the loss tensor, launches nothing and returns; the input still
  holds the prediction, no gradient is written.\<close>

lemma MultiCrossEntropyLoss_single_element:
  "MultiCrossEntropyLoss_fused_loss_computation
     \<lparr>SCALE_128 = False, SCALE_256 = False, SCALE_512 = False, SCALE_1024 = False,
      NDEBUG = True\<rparr>
     \<lparr>device_id = 0,
      input_tensors = [\<lparr>dims = [1, 1], format = HW, ptr = 0\<rparr>],
      label_tensors = [\<lparr>dims = [1, 1], format = HW, ptr = 1\<rparr>],
      loss_tensors = [\<lparr>dims = [1, 1], format = HW, ptr = 2\<rparr>],
      target_weight = \<lparr>dims = [1, 1], format = HW, ptr = 3\<rparr>\<rparr>
     \<lparr>cur_device = 0, device_count = 1,
      mem = (\<lambda>p. if p = 0 then [3] else if p = 2 then [7] else [1]), next_free = 4\<rparr>
   = Some (Inr (),
       \<lparr>cur_device = 0, device_count = 1,
        mem = (\<lambda>p. if p = 0 then [3] else if p = 2 then [0] else [1]), next_free = 4\<rparr>)"
  by (simp add: MultiCrossEntropyLoss_fused_loss_computation_def get_set_device_def
      MultiCrossEntropyLoss_compute_def vec_at_def GRID_SIZE_def BLOCK_SIZE_def c_div_def
      launch_ok_def Let_def fun_eq_iff)

text \<open>Claim C1. For every batch size \<open>B\<close> and labels per sample \<open>L\<close> with \<open>B * L > 0\<close> the
  launch of MultiCrossEntropyLoss is stated to use \<open>min(40, ceil(B * L / 256))\<close> blocks of
  256 threads, hence at least one block. The source does not: for one sample with one
  label it computes a grid of 0 blocks where the stated count is 1, and a grid of 0
  blocks is not a valid launch.\<close>

theorem GRID_SIZE_single_element:
  "GRID_SIZE 1 1 = 0 \<and> spec_GRID_SIZE 1 1 = 1 \<and> BLOCK_SIZE = 256 \<and>
   \<not> launch_ok (GRID_SIZE 1 1) BLOCK_SIZE"
  by (simp add: GRID_SIZE_def spec_GRID_SIZE_def BLOCK_SIZE_def c_div_def launch_ok_def
      ceiling_eq_iff)

subsection \<open>Device discipline\<close>

text \<open>Claim C2. Every call of \<open>fused_loss_computation\<close> is stated to restore the caller's
  device on every exit path, also when a check raises WrongInput after the switch. In the
  source the exception leaves the function before the restoring call: an engine bound to
  device 1, called from device 0 with an input of feature dimension 3, raises WrongInput
  and leaves device 1 current. This holds for CrossEntropyLoss and for
  BinaryCrossEntropyLoss.\<close>

theorem fused_loss_computation_leaks_device:
  "CrossEntropyLoss_fused_loss_computation b
     \<lparr>device_id = 1,
      input_tensors = [\<lparr>dims = [4, 3], format = HW, ptr = 0\<rparr>],
      label_tensors = [\<lparr>dims = [4, 1], format = HW, ptr = 1\<rparr>],
      loss_tensors = [\<lparr>dims = [1, 1], format = HW, ptr = 2\<rparr>]\<rparr>
     \<lparr>cur_device = 0, device_count = 2, mem = (\<lambda>p. []), next_free = 3\<rparr>
   = Some (Inl (Throw WrongInput),
       \<lparr>cur_device = 1, device_count = 2, mem = (\<lambda>p. []), next_free = 3\<rparr>) \<and>
   BinaryCrossEntropyLoss_fused_loss_computation b
     \<lparr>device_id = 1,
      input_tensors = [\<lparr>dims = [4, 3], format = HW, ptr = 0\<rparr>],
      label_tensors = [\<lparr>dims = [4, 1], format = HW, ptr = 1\<rparr>],
      loss_tensors = [\<lparr>dims = [1, 1], format = HW, ptr = 2\<rparr>]\<rparr>
     \<lparr>cur_device = 0, device_count = 2, mem = (\<lambda>p. []), next_free = 3\<rparr>
   = Some (Inl (Throw WrongInput),
       \<lparr>cur_device = 1, device_count = 2, mem = (\<lambda>p. []), next_free = 3\<rparr>)"
  by (simp add: CrossEntropyLoss_fused_loss_computation_def get_set_device_def
      CrossEntropyLoss_compute_def vec_at_def CrossEntropyLoss_checks_def
      BinaryCrossEntropyLoss_fused_loss_computation_def BinaryCrossEntropyLoss_compute_def
      BinaryCrossEntropyLoss_checks_def)

subsection \<open>Validation in the constructors\<close>

lemma multi_shape_mismatch_iff:
  "multi_shape_mismatch l i \<longleftrightarrow>
     \<not> (length (dims l) = 2 \<and> length (dims i) = 2 \<and> format l = HW \<and> format i = HW \<and>
        dims l = dims i)"
proof -
  have "\<And>xs ys :: int list. length xs = 2 \<Longrightarrow> length ys = 2 \<Longrightarrow>
          (xs = ys) = (xs ! 0 = ys ! 0 \<and> xs ! 1 = ys ! 1)"
    by (auto simp: list_eq_iff_nth_eq less_Suc_eq numeral_2_eq_2)
  then show ?thesis
    by (auto simp: multi_shape_mismatch_def)
qed

text \<open>Claim C3, as stated: every engine, constructed with mismatched label and input
  shapes, fails with WrongInput at construction. The CrossEntropyLoss constructor does
  not: it holds no check, and accepts a label of 4 rows for an input of 8 rows.\<close>

theorem CrossEntropyLoss_new_accepts_mismatch:
  "fst (CrossEntropyLoss_new \<lparr>dims = [4, 1], format = HW, ptr = 1\<rparr>
          \<lparr>dims = [8, 2], format = HW, ptr = 0\<rparr> \<lparr>dims = [1, 1], format = HW, ptr = 2\<rparr> 0
          \<lparr>cur_device = 0, device_count = 1, mem = (\<lambda>p. []), next_free = 3\<rparr>)
     = Inr \<lparr>device_id = 0,
            input_tensors = [\<lparr>dims = [8, 2], format = HW, ptr = 0\<rparr>],
            label_tensors = [\<lparr>dims = [4, 1], format = HW, ptr = 1\<rparr>],
            loss_tensors = [\<lparr>dims = [1, 1], format = HW, ptr = 2\<rparr>]\<rparr>"
  by (simp add: CrossEntropyLoss_new_def push_tensors_def Loss_base_def)

text \<open>Claim C3, amended. Only the MultiCrossEntropyLoss constructor validates shapes:
  called with label and input tensors of different shapes it fails with WrongInput and
  leaves the state of the devices (memory and current device) as it was. The constructors
  of CrossEntropyLoss and BinaryCrossEntropyLoss never fail: whatever the shapes, they
  bind the three tensors and leave the state of the devices as it was.\<close>

theorem constructors_shape_validation:
  "(dims label_tensor \<noteq> dims input_tensor \<longrightarrow>
      MultiCrossEntropyLoss_new label_tensor input_tensor loss_tensor weights dev w
        = (Inl (Throw WrongInput), w)) \<and>
   CrossEntropyLoss_new label_tensor input_tensor loss_tensor dev w
     = (Inr \<lparr>device_id = dev, input_tensors = [input_tensor],
             label_tensors = [label_tensor], loss_tensors = [loss_tensor]\<rparr>, w) \<and>
   BinaryCrossEntropyLoss_new label_tensor input_tensor loss_tensor dev w
     = (Inr \<lparr>device_id = dev, input_tensors = [input_tensor],
             label_tensors = [label_tensor], loss_tensors = [loss_tensor]\<rparr>, w)"
  by (simp add: MultiCrossEntropyLoss_new_def multi_shape_mismatch_iff
      CrossEntropyLoss_new_def BinaryCrossEntropyLoss_new_def push_tensors_def Loss_base_def)

theorem constructors_shape_validation_witness:
  "dims \<lparr>dims = [4, 3], format = HW, ptr = 1\<rparr> \<noteq> dims \<lparr>dims = [8, 3], format = HW, ptr = 0\<rparr> \<and>
   MultiCrossEntropyLoss_new \<lparr>dims = [4, 3], format = HW, ptr = 1\<rparr>
       \<lparr>dims = [8, 3], format = HW, ptr = 0\<rparr> \<lparr>dims = [1, 1], format = HW, ptr = 2\<rparr>
       [1, 1, 1] 0 \<lparr>cur_device = 0, device_count = 1, mem = (\<lambda>p. []), next_free = 3\<rparr>
     = (Inl (Throw WrongInput),
        \<lparr>cur_device = 0, device_count = 1, mem = (\<lambda>p. []), next_free = 3\<rparr>)"
  using constructors_shape_validation
    [of "\<lparr>dims = [4, 3], format = HW, ptr = 1\<rparr>" "\<lparr>dims = [8, 3], format = HW, ptr = 0\<rparr>"
        "\<lparr>dims = [1, 1], format = HW, ptr = 2\<rparr>" "[1, 1, 1]" 0
        "\<lparr>cur_device = 0, device_count = 1, mem = (\<lambda>p. []), next_free = 3\<rparr>"]
  by simp

text \<open>Claim C9, as stated: the MultiCrossEntropyLoss constructor raises WrongInput if and
  only if the tensors are not both 2-dimensional, or their layouts do not match, or
  their shapes differ, or the number of weights is not the number of label columns. The
  source asks for more than matching layouts: both must be \<open>HW\<close>. Two \<open>WH\<close> tensors of
  shape 2 by 3 with 3 weights meet every stated condition and are refused.\<close>

theorem MultiCrossEntropyLoss_new_refuses_WH:
  "length (dims \<lparr>dims = [2, 3], format = WH, ptr = 1\<rparr>) = 2 \<and>
   length (dims \<lparr>dims = [2, 3], format = WH, ptr = 0\<rparr>) = 2 \<and>
   format \<lparr>dims = [2, 3], format = WH, ptr = 1\<rparr>
     = format \<lparr>dims = [2, 3], format = WH, ptr = 0\<rparr> \<and>
   dims \<lparr>dims = [2, 3], format = WH, ptr = 1\<rparr> = dims \<lparr>dims = [2, 3], format = WH, ptr = 0\<rparr> \<and>
   int (length [1, 1, 1 :: real]) = dims \<lparr>dims = [2, 3], format = WH, ptr = 1\<rparr> ! 1 \<and>
   fst (MultiCrossEntropyLoss_new \<lparr>dims = [2, 3], format = WH, ptr = 1\<rparr>
          \<lparr>dims = [2, 3], format = WH, ptr = 0\<rparr> \<lparr>dims = [1, 1], format = HW, ptr = 2\<rparr>
          [1, 1, 1] 0 \<lparr>cur_device = 0, device_count = 1, mem = (\<lambda>p. []), next_free = 3\<rparr>)
     = Inl (Throw WrongInput)"
  by (simp add: MultiCrossEntropyLoss_new_def multi_shape_mismatch_def)

text \<open>Claim C9, amended. The MultiCrossEntropyLoss constructor raises WrongInput if and
  only if one of these fails: the label and the input tensor are each exactly
  2-dimensional, both have the layout \<open>HW\<close>, their shapes are identical, and the number of
  weights equals the number of label columns. For every input that satisfies all of
  these, with the engine's device and the caller's current device both existing,
  construction succeeds: the engine holds the three tensors and a weight tensor filled
  with the weights, and the caller's device is current again.\<close>

theorem MultiCrossEntropyLoss_new_validation:
  "(fst (MultiCrossEntropyLoss_new label_tensor input_tensor loss_tensor weights dev w)
      = Inl (Throw WrongInput)) =
   (\<not> (length (dims label_tensor) = 2 \<and> length (dims input_tensor) = 2 \<and>
       format label_tensor = HW \<and> format input_tensor = HW \<and>
       dims label_tensor = dims input_tensor \<and>
       int (length weights) = dims label_tensor ! 1)) \<and>
   (length (dims label_tensor) = 2 \<and> length (dims input_tensor) = 2 \<and>
    format label_tensor = HW \<and> format input_tensor = HW \<and>
    dims label_tensor = dims input_tensor \<and>
    int (length weights) = dims label_tensor ! 1 \<and>
    0 \<le> dev \<and> dev < device_count w \<and> 0 \<le> cur_device w \<and> cur_device w < device_count w \<longrightarrow>
    (\<exists>eng w'. MultiCrossEntropyLoss_new label_tensor input_tensor loss_tensor weights dev w
         = (Inr eng, w') \<and>
       device_id eng = dev \<and> input_tensors eng = [input_tensor] \<and>
       label_tensors eng = [label_tensor] \<and> loss_tensors eng = [loss_tensor] \<and>
       mem w' (ptr (target_weight eng)) = weights \<and> cur_device w' = cur_device w))"
proof -
  have "(fst (MultiCrossEntropyLoss_new label_tensor input_tensor loss_tensor weights dev w)
      = Inl (Throw WrongInput)) =
   (\<not> (length (dims label_tensor) = 2 \<and> length (dims input_tensor) = 2 \<and>
       format label_tensor = HW \<and> format input_tensor = HW \<and>
       dims label_tensor = dims input_tensor \<and>
       int (length weights) = dims label_tensor ! 1))"
    by (auto simp: MultiCrossEntropyLoss_new_def multi_shape_mismatch_iff get_set_device_def
        alloc_target_weight_def split: sum.splits prod.splits)
  moreover have "length (dims label_tensor) = 2 \<and> length (dims input_tensor) = 2 \<and>
    format label_tensor = HW \<and> format input_tensor = HW \<and>
    dims label_tensor = dims input_tensor \<and>
    int (length weights) = dims label_tensor ! 1 \<and>
    0 \<le> dev \<and> dev < device_count w \<and> 0 \<le> cur_device w \<and> cur_device w < device_count w \<longrightarrow>
    (\<exists>eng w'. MultiCrossEntropyLoss_new label_tensor input_tensor loss_tensor weights dev w
         = (Inr eng, w') \<and>
       device_id eng = dev \<and> input_tensors eng = [input_tensor] \<and>
       label_tensors eng = [label_tensor] \<and> loss_tensors eng = [loss_tensor] \<and>
       mem w' (ptr (target_weight eng)) = weights \<and> cur_device w' = cur_device w)"
  proof (intro impI, elim conjE)
    assume a: "length (dims label_tensor) = 2" "length (dims input_tensor) = 2"
      "format label_tensor = HW" "format input_tensor = HW"
      "dims label_tensor = dims input_tensor" "int (length weights) = dims label_tensor ! 1"
      "0 \<le> dev" "dev < device_count w" "0 \<le> cur_device w" "cur_device w < device_count w"
    then show "\<exists>eng w'.
       MultiCrossEntropyLoss_new label_tensor input_tensor loss_tensor weights dev w
         = (Inr eng, w') \<and>
       device_id eng = dev \<and> input_tensors eng = [input_tensor] \<and>
       label_tensors eng = [label_tensor] \<and> loss_tensors eng = [loss_tensor] \<and>
       mem w' (ptr (target_weight eng)) = weights \<and> cur_device w' = cur_device w"
      by (simp add: MultiCrossEntropyLoss_new_def multi_shape_mismatch_iff get_set_device_def
          alloc_target_weight_def push_tensors_def Loss_base_def Loss.extend_def)
  qed
  ultimately show ?thesis by blast
qed

theorem MultiCrossEntropyLoss_new_validation_witness:
  "\<exists>eng w'. MultiCrossEntropyLoss_new \<lparr>dims = [2, 3], format = HW, ptr = 1\<rparr>
       \<lparr>dims = [2, 3], format = HW, ptr = 0\<rparr> \<lparr>dims = [1, 1], format = HW, ptr = 2\<rparr>
       [1, 2, 3] 0 \<lparr>cur_device = 0, device_count = 1, mem = (\<lambda>p. []), next_free = 3\<rparr>
     = (Inr eng, w') \<and> mem w' (ptr (target_weight eng)) = [1, 2, 3] \<and> cur_device w' = 0"
  using MultiCrossEntropyLoss_new_validation
    [of "\<lparr>dims = [2, 3], format = HW, ptr = 1\<rparr>" "\<lparr>dims = [2, 3], format = HW, ptr = 0\<rparr>"
        "\<lparr>dims = [1, 1], format = HW, ptr = 2\<rparr>" "[1, 2, 3]" 0
        "\<lparr>cur_device = 0, device_count = 1, mem = (\<lambda>p. []), next_free = 3\<rparr>"]
  by auto

subsection \<open>Validation in the host functions\<close>

text \<open>Claim C4, as stated: BinaryCrossEntropyLoss does not check that the layouts of
  input and label agree, and a call with different layouts and feature dimension 1
  reaches the launch without WrongInput. The source does check, first of all (line
  176): an \<open>HW\<close> input of shape 4 by 1 with a \<open>WH\<close> label of shape 1 by 4 raises
  WrongInput.\<close>

theorem BinaryCrossEntropyLoss_refuses_layout_mismatch:
  "BinaryCrossEntropyLoss_fused_loss_computation
     \<lparr>SCALE_128 = False, SCALE_256 = False, SCALE_512 = False, SCALE_1024 = False,
      NDEBUG = True\<rparr>
     \<lparr>device_id = 0,
      input_tensors = [\<lparr>dims = [4, 1], format = HW, ptr = 0\<rparr>],
      label_tensors = [\<lparr>dims = [1, 4], format = WH, ptr = 1\<rparr>],
      loss_tensors = [\<lparr>dims = [1, 1], format = HW, ptr = 2\<rparr>]\<rparr>
     \<lparr>cur_device = 0, device_count = 1, mem = (\<lambda>p. [0, 0, 0, 0]), next_free = 3\<rparr>
   = Some (Inl (Throw WrongInput),
       \<lparr>cur_device = 0, device_count = 1, mem = (\<lambda>p. [0, 0, 0, 0]), next_free = 3\<rparr>)"
  by (simp add: BinaryCrossEntropyLoss_fused_loss_computation_def get_set_device_def
      BinaryCrossEntropyLoss_compute_def vec_at_def BinaryCrossEntropyLoss_checks_def)

text \<open>Claim C4, amended. BinaryCrossEntropyLoss checks the agreement of the layouts
  before anything else: for every input and label tensor whose formats differ, whatever
  their shapes, a call on an existing device raises WrongInput; no kernel is launched and
  device memory is as it was (the engine's device is left current).\<close>

theorem BinaryCrossEntropyLoss_checks_layout:
  assumes "input_tensors this = [input_tensor]" and "label_tensors this = [label_tensor]"
    and "loss_tensors this = [loss_tensor]"
    and "format input_tensor \<noteq> format label_tensor"
    and "0 \<le> device_id this" and "device_id this < device_count w"
  shows "BinaryCrossEntropyLoss_fused_loss_computation b this w =
     Some (Inl (Throw WrongInput), w\<lparr>cur_device := device_id this\<rparr>)"
  using assms
  by (simp add: BinaryCrossEntropyLoss_fused_loss_computation_def get_set_device_def
      BinaryCrossEntropyLoss_compute_def BinaryCrossEntropyLoss_checks_def vec_at_def)

theorem BinaryCrossEntropyLoss_checks_layout_witness:
  "BinaryCrossEntropyLoss_fused_loss_computation
     \<lparr>SCALE_128 = False, SCALE_256 = False, SCALE_512 = False, SCALE_1024 = False,
      NDEBUG = True\<rparr>
     \<lparr>device_id = 0,
      input_tensors = [\<lparr>dims = [1, 4], format = WH, ptr = 0\<rparr>],
      label_tensors = [\<lparr>dims = [4, 1], format = HW, ptr = 1\<rparr>],
      loss_tensors = [\<lparr>dims = [1, 1], format = HW, ptr = 2\<rparr>]\<rparr>
     \<lparr>cur_device = 0, device_count = 1, mem = (\<lambda>p. [0, 0, 0, 0]), next_free = 3\<rparr>
   = Some (Inl (Throw WrongInput),
       \<lparr>cur_device = 0, device_count = 1, mem = (\<lambda>p. [0, 0, 0, 0]), next_free = 3\<rparr>)"
  using BinaryCrossEntropyLoss_checks_layout
    [of "\<lparr>device_id = 0,
          input_tensors = [\<lparr>dims = [1, 4], format = WH, ptr = 0\<rparr>],
          label_tensors = [\<lparr>dims = [4, 1], format = HW, ptr = 1\<rparr>],
          loss_tensors = [\<lparr>dims = [1, 1], format = HW, ptr = 2\<rparr>]\<rparr>"
        "\<lparr>dims = [1, 4], format = WH, ptr = 0\<rparr>" "\<lparr>dims = [4, 1], format = HW, ptr = 1\<rparr>"
        "\<lparr>dims = [1, 1], format = HW, ptr = 2\<rparr>"
        "\<lparr>cur_device = 0, device_count = 1, mem = (\<lambda>p. [0, 0, 0, 0]), next_free = 3\<rparr>"]
  by simp

subsection \<open>The loops of the kernels\<close>

text \<open>With a positive step the loop ends, and it is the fold of its body over the indices
  \<open>i, i + step, ...\<close> below \<open>n\<close>.\<close>

lemma for_stride_fold:
  "0 < step \<Longrightarrow> for_stride body n step i s = Some (fold_samples body (stride_list n step i) s)"
proof (induction n step i arbitrary: s rule: stride_list.induct)
  case (1 n step i)
  show ?case
  proof (cases "int i < n")
    case True
    with 1 show ?thesis
      by (subst for_stride.simps, subst stride_list.simps) (simp split: sum.splits)
  next
    case False
    then show ?thesis
      by (subst for_stride.simps, subst stride_list.simps) simp
  qed
qed

lemma stride_step:
  assumes "0 < (step::nat)"
  shows "(i \<le> j \<and> j mod step = i mod step) =
         (j = i \<or> (i + step \<le> j \<and> j mod step = (i + step) mod step))"
proof (cases "i < j \<and> j mod step = i mod step")
  case True
  then have "step dvd j - i"
    using mod_eq_dvd_iff_nat [of i j step] by simp
  moreover have "0 < j - i" using True by simp
  ultimately have "step \<le> j - i"
    by (rule_tac dvd_imp_le) auto
  with True show ?thesis by auto
next
  case False
  then show ?thesis by auto
qed

lemma set_stride_list:
  "0 < step \<Longrightarrow> set (stride_list n step i) = {j. i \<le> j \<and> int j < n \<and> j mod step = i mod step}"
proof (induction n step i rule: stride_list.induct)
  case (1 n step i)
  show ?case
  proof (cases "int i < n")
    case True
    with 1 stride_step[of step i] show ?thesis
      by (subst stride_list.simps) auto
  next
    case False
    then show ?thesis
      by (subst stride_list.simps) auto
  qed
qed

lemma distinct_stride_list: "distinct (stride_list n step i)"
proof (induction n step i rule: stride_list.induct)
  case (1 n step i)
  show ?case
  proof (cases "int i < n \<and> 0 < step")
    case True
    with 1 show ?thesis
      by (subst stride_list.simps) (auto simp: set_stride_list)
  next
    case False
    then show ?thesis
      by (subst stride_list.simps) auto
  qed
qed

lemma set_stride_thread:
  assumes "tid < bd"
  shows "set (stride_list n bd tid) = {j. int j < n \<and> j mod bd = tid}"
proof -
  have *: "(tid \<le> j \<and> j mod bd = tid mod bd) = (j mod bd = tid)" for j
  proof -
    have "j mod bd \<le> j" by simp
    then show ?thesis using assms by auto
  qed
  have "0 < bd" using assms by simp
  then have "set (stride_list n bd tid) = {j. tid \<le> j \<and> int j < n \<and> j mod bd = tid mod bd}"
    by (rule set_stride_list)
  also have "\<dots> = {j. int j < n \<and> j mod bd = tid}"
    using * by blast
  finally show ?thesis .
qed

lemma stride_disjoint:
  assumes "t1 < bd" "t2 < bd" "t1 \<noteq> t2"
  shows "set (stride_list n bd t1) \<inter> set (stride_list n bd t2) = {}"
  using assms by (auto simp: set_stride_thread)

lemma stride_below: "i \<in> set (stride_list n bd tid) \<Longrightarrow> tid < bd \<Longrightarrow> int i < n"
  by (simp add: set_stride_thread)

lemma stride_cover:
  assumes "0 < bd"
  shows "(\<Union>tid\<in>set [0..<bd]. set (stride_list n bd tid)) = {i. int i < n}"
proof -
  have "i \<in> (\<Union>tid\<in>set [0..<bd]. set (stride_list n bd tid)) \<longleftrightarrow> int i < n" for i
  proof
    assume "i \<in> (\<Union>tid\<in>set [0..<bd]. set (stride_list n bd tid))"
    then obtain tid where "tid < bd" "i \<in> set (stride_list n bd tid)" by auto
    then show "int i < n" by (simp add: set_stride_thread)
  next
    assume "int i < n"
    moreover have "i mod bd < bd" using assms by simp
    ultimately have "i \<in> set (stride_list n bd (i mod bd))" by (simp add: set_stride_thread)
    with \<open>i mod bd < bd\<close> show "i \<in> (\<Union>tid\<in>set [0..<bd]. set (stride_list n bd tid))"
      by auto
  qed
  then show ?thesis by blast
qed

lemma grid_threads_upt: "grid_threads gd bd = [0..<bd * gd]"
proof (induction gd)
  case 0
  then show ?case by (simp add: grid_threads_def)
next
  case (Suc gd)
  have "grid_threads (Suc gd) bd = grid_threads gd bd @ map (\<lambda>t. t + bd * gd) [0..<bd]"
    by (simp add: grid_threads_def)
  also have "map (\<lambda>t. t + bd * gd) [0..<bd] = [bd * gd..<bd + bd * gd]"
    by (rule map_add_upt)
  also have "grid_threads gd bd @ [bd * gd..<bd + bd * gd] = [0..<bd * gd + bd]"
    using Suc upt_add_eq_append [of 0 "bd * gd" bd] by (simp add: add.commute)
  finally show ?case by (simp add: add.commute)
qed

text \<open>The partial sums of the threads add up to the sum over all samples.\<close>

lemma sum_slots:
  fixes f :: "nat \<Rightarrow> real"
  assumes "0 < bd"
  shows "sum_list (map (\<lambda>tid. sum_list (map f (stride_list n bd tid))) [0..<bd])
           = (\<Sum>i<nat n. f i)"
proof -
  let ?S = "\<lambda>tid. set (stride_list n bd tid)"
  have "sum_list (map (\<lambda>tid. sum_list (map f (stride_list n bd tid))) [0..<bd])
      = sum_list (map (\<lambda>tid. sum f (?S tid)) [0..<bd])"
    by (simp add: sum_list_distinct_conv_sum_set distinct_stride_list)
  also have "\<dots> = sum (\<lambda>tid. sum f (?S tid)) {0..<bd}"
    by (simp add: interv_sum_list_conv_sum_set_nat)
  also have "\<dots> = sum f (\<Union>tid\<in>{0..<bd}. ?S tid)"
  proof (rule sum.UNION_disjoint [symmetric])
    show "finite {0..<bd}" by simp
    show "\<forall>i\<in>{0..<bd}. finite (?S i)" by simp
    show "\<forall>i\<in>{0..<bd}. \<forall>j\<in>{0..<bd}. i \<noteq> j \<longrightarrow> ?S i \<inter> ?S j = {}"
      using stride_disjoint by simp
  qed
  also have "(\<Union>tid\<in>{0..<bd}. ?S tid) = {i. int i < n}"
    using stride_cover [OF assms, of n] by simp
  also have "{i. int i < n} = {..<nat n}" by auto
  finally show ?thesis .
qed

lemma foldl_plus_sum_list: "foldl (+) a xs = a + sum_list (xs :: real list)"
  by (induction xs arbitrary: a) (simp_all add: add.assoc)

lemma foldl_atomic_sum:
  "foldl (\<lambda>acc l. atomic_global_sum_div (- l) acc sz) a xs = a - sum_list xs / real_of_int sz"
  by (induction xs arbitrary: a) (simp_all add: atomic_global_sum_div_def diff_divide_distrib add_divide_distrib)

text \<open>A local body, folded over distinct samples, leaves in the cells of every sample what
  the body computes from the array as it was before the loop.\<close>

lemma sample_localI:
  assumes "\<And>i inp acc. body i (inp, acc) =
          (if ok i inp then Inr (wr i inp, acc + tm i inp) else Inl Undefined_Behaviour)"
    and "\<And>i inp. length (wr i inp) = length inp"
    and "\<And>i inp p. p \<notin> cells i \<Longrightarrow> wr i inp ! p = inp ! p"
    and "\<And>i inp inp'. length inp = length inp' \<Longrightarrow> \<forall>p\<in>cells i. inp ! p = inp' ! p \<Longrightarrow>
          ok i inp' \<Longrightarrow>
          ok i inp \<and> tm i inp = tm i inp' \<and> (\<forall>p\<in>cells i. wr i inp ! p = wr i inp' ! p)"
    and "\<And>i j. i \<in> I \<Longrightarrow> j \<in> I \<Longrightarrow> i \<noteq> j \<Longrightarrow> cells i \<inter> cells j = {}"
  shows "sample_local body ok wr tm cells I"
  unfolding sample_local_def using assms by blast

lemma sample_local_body:
  "sample_local body ok wr tm cells I \<Longrightarrow> body i (inp, acc) =
      (if ok i inp then Inr (wr i inp, acc + tm i inp) else Inl Undefined_Behaviour)"
  by (simp add: sample_local_def)

lemma sample_local_length:
  "sample_local body ok wr tm cells I \<Longrightarrow> length (wr i inp) = length inp"
  by (simp add: sample_local_def)

lemma sample_local_frame:
  "sample_local body ok wr tm cells I \<Longrightarrow> p \<notin> cells i \<Longrightarrow> wr i inp ! p = inp ! p"
  by (simp add: sample_local_def)

lemma sample_local_loc:
  assumes "sample_local body ok wr tm cells I" and "length inp = length inp'"
    and "\<forall>p\<in>cells i. inp ! p = inp' ! p" and "ok i inp'"
  shows "ok i inp" and "tm i inp = tm i inp'"
    and "\<forall>p\<in>cells i. wr i inp ! p = wr i inp' ! p"
proof -
  from assms(1) have "length inp = length inp' \<and> (\<forall>p\<in>cells i. inp ! p = inp' ! p) \<and>
          ok i inp' \<longrightarrow>
          ok i inp \<and> tm i inp = tm i inp' \<and>
          (\<forall>p\<in>cells i. wr i inp ! p = wr i inp' ! p)"
    unfolding sample_local_def by (elim conjE allE)
  with assms(2,3,4) show "ok i inp" and "tm i inp = tm i inp'"
    and "\<forall>p\<in>cells i. wr i inp ! p = wr i inp' ! p" by simp_all
qed

lemma sample_local_disj:
  "sample_local body ok wr tm cells I \<Longrightarrow> i \<in> I \<Longrightarrow> j \<in> I \<Longrightarrow> i \<noteq> j \<Longrightarrow> cells i \<inter> cells j = {}"
  by (simp add: sample_local_def)

lemma fold_samples_local:
  assumes L: "sample_local body ok wr tm cells I"
    and "distinct js" and "set js \<subseteq> I" and "\<forall>i\<in>set js. ok i inp0"
    and "length inp = length inp0" and "\<forall>i\<in>set js. \<forall>p\<in>cells i. inp ! p = inp0 ! p"
  shows "\<exists>r. fold_samples body js (inp, acc)
             = Inr (r, acc + sum_list (map (\<lambda>i. tm i inp0) js)) \<and>
           length r = length inp0 \<and>
           (\<forall>i\<in>set js. \<forall>p\<in>cells i. r ! p = wr i inp0 ! p) \<and>
           (\<forall>p. p \<notin> \<Union>(cells ` set js) \<longrightarrow> r ! p = inp ! p)"
  using assms(2-)
proof (induction js arbitrary: inp acc)
  case Nil
  then show ?case by simp
next
  case (Cons i js)
  note body = sample_local_body [OF L] and len = sample_local_length [OF L]
    and frame = sample_local_frame [OF L] and disj = sample_local_disj [OF L]
  from Cons.prems have iI: "i \<in> I" and jsI: "set js \<subseteq> I" and inotin: "i \<notin> set js"
    and djs: "distinct js" by auto
  have agree: "\<forall>p\<in>cells i. inp ! p = inp0 ! p" using Cons.prems by simp
  have ok0: "ok i inp0" using Cons.prems(3) by simp
  from sample_local_loc [OF L Cons.prems(4) agree ok0]
  have oki: "ok i inp" and tmi: "tm i inp = tm i inp0"
    and wri: "\<forall>p\<in>cells i. wr i inp ! p = wr i inp0 ! p"
    by simp_all
  define inp1 where "inp1 = wr i inp"
  have step: "body i (inp, acc) = Inr (inp1, acc + tm i inp0)"
    using oki tmi by (simp add: body inp1_def)
  have away: "p \<notin> cells i" if "j \<in> set js" "p \<in> cells j" for j p
  proof -
    from that(1) have "j \<in> I" "i \<noteq> j" using jsI inotin by auto
    with disj [OF iI] have "cells i \<inter> cells j = {}" by simp
    with that(2) show ?thesis by blast
  qed
  have l1: "length inp1 = length inp0" using Cons.prems(4) by (simp add: inp1_def len)
  have a1: "\<forall>j\<in>set js. \<forall>p\<in>cells j. inp1 ! p = inp0 ! p"
  proof (intro ballI)
    fix j p assume jp: "j \<in> set js" "p \<in> cells j"
    then have "inp1 ! p = inp ! p" using away frame by (simp add: inp1_def)
    also have "\<dots> = inp0 ! p" using Cons.prems(5) jp by simp
    finally show "inp1 ! p = inp0 ! p" .
  qed
  have o1: "\<forall>j\<in>set js. ok j inp0" using Cons.prems(3) by simp
  from Cons.IH [OF djs jsI o1 l1 a1, of "acc + tm i inp0"] obtain r where
    r1: "fold_samples body js (inp1, acc + tm i inp0)
          = Inr (r, acc + tm i inp0 + sum_list (map (\<lambda>i. tm i inp0) js))"
    and r2: "length r = length inp0"
    and r3: "\<forall>j\<in>set js. \<forall>p\<in>cells j. r ! p = wr j inp0 ! p"
    and r4: "\<forall>p. p \<notin> \<Union>(cells ` set js) \<longrightarrow> r ! p = inp1 ! p"
    by blast
  have r5: "\<forall>p\<in>cells i. r ! p = wr i inp0 ! p"
  proof
    fix p assume p: "p \<in> cells i"
    then have "p \<notin> \<Union>(cells ` set js)" using away by blast
    then have "r ! p = inp1 ! p" using r4 by blast
    then show "r ! p = wr i inp0 ! p" using wri p by (simp add: inp1_def)
  qed
  have r6: "\<forall>p. p \<notin> \<Union>(cells ` set (i # js)) \<longrightarrow> r ! p = inp ! p"
  proof (intro allI impI)
    fix p assume p: "p \<notin> \<Union>(cells ` set (i # js))"
    then have "p \<notin> \<Union>(cells ` set js)" and pi: "p \<notin> cells i" by auto
    then have "r ! p = inp1 ! p" using r4 by blast
    then show "r ! p = inp ! p" using frame [OF pi] by (simp add: inp1_def)
  qed
  have "fold_samples body (i # js) (inp, acc)
          = Inr (r, acc + sum_list (map (\<lambda>i. tm i inp0) (i # js)))"
    using step r1 by (simp add: add.assoc)
  moreover have "\<forall>j\<in>set (i # js). \<forall>p\<in>cells j. r ! p = wr j inp0 ! p"
    using r3 r5 by simp
  ultimately show ?case using r2 r6 by blast
qed

lemma run_threads_local:
  assumes L: "sample_local body ok wr tm cells {i. int i < n}"
    and ok0: "\<forall>i. int i < n \<longrightarrow> ok i inp0"
    and "distinct tids" and "\<forall>tid\<in>set tids. tid < bd"
    and "length inp = length inp0"
    and "\<forall>tid\<in>set tids. \<forall>i\<in>set (stride_list n bd tid). \<forall>p\<in>cells i. inp ! p = inp0 ! p"
  shows "\<exists>r. run_threads (\<lambda>tid inp. for_stride body n bd tid (inp, 0)) tids inp
             = Some (Inr (r, map (\<lambda>tid. sum_list (map (\<lambda>i. tm i inp0) (stride_list n bd tid))) tids)) \<and>
           length r = length inp0 \<and>
           (\<forall>tid\<in>set tids. \<forall>i\<in>set (stride_list n bd tid). \<forall>p\<in>cells i. r ! p = wr i inp0 ! p) \<and>
           (\<forall>p. p \<notin> \<Union>(cells ` (\<Union>tid\<in>set tids. set (stride_list n bd tid))) \<longrightarrow> r ! p = inp ! p)"
  using assms(3-)
proof (induction tids arbitrary: inp)
  case Nil
  then show ?case by simp
next
  case (Cons tid tids)
  let ?S = "\<lambda>t. stride_list n bd t"
  let ?thr = "\<lambda>tid inp. for_stride body n bd tid (inp, 0)"
  note disj = sample_local_disj [OF L]
  from Cons.prems have tid: "tid < bd" and tids: "\<forall>t\<in>set tids. t < bd"
    and notin: "tid \<notin> set tids" and dt: "distinct tids" by auto
  then have bd: "0 < bd" by simp
  have inI: "set (?S tid) \<subseteq> {i. int i < n}" using stride_below [OF _ tid] by blast
  have okS: "\<forall>i\<in>set (?S tid). ok i inp0" using ok0 inI by blast
  have agS: "\<forall>i\<in>set (?S tid). \<forall>p\<in>cells i. inp ! p = inp0 ! p" using Cons.prems(4) by simp
  from fold_samples_local [OF L distinct_stride_list inI okS Cons.prems(3) agS, of 0]
  obtain r1 where
    f1: "fold_samples body (?S tid) (inp, 0) = Inr (r1, 0 + sum_list (map (\<lambda>i. tm i inp0) (?S tid)))"
    and f2: "length r1 = length inp0"
    and f3: "\<forall>i\<in>set (?S tid). \<forall>p\<in>cells i. r1 ! p = wr i inp0 ! p"
    and f4: "\<forall>p. p \<notin> \<Union>(cells ` set (?S tid)) \<longrightarrow> r1 ! p = inp ! p"
    by blast
  have thr: "?thr tid inp = Some (Inr (r1, sum_list (map (\<lambda>i. tm i inp0) (?S tid))))"
    using f1 by (simp add: for_stride_fold [OF bd])
  have apart: "p \<notin> cells i" if "i \<in> set (?S tid)" "t \<in> set tids" "j \<in> set (?S t)" "p \<in> cells j"
    for i t j p
  proof -
    have "t < bd" "t \<noteq> tid" using that(2) tids notin by auto
    with stride_disjoint [OF tid this(1)] that(1,3) have "i \<noteq> j" by blast
    moreover have "int i < n" using stride_below [OF that(1) tid] .
    moreover have "int j < n" using stride_below [OF that(3) \<open>t < bd\<close>] .
    ultimately have "cells i \<inter> cells j = {}" using disj by simp
    with that(4) show ?thesis by blast
  qed
  have a1: "\<forall>t\<in>set tids. \<forall>j\<in>set (?S t). \<forall>p\<in>cells j. r1 ! p = inp0 ! p"
  proof (intro ballI)
    fix t j p assume h: "t \<in> set tids" "j \<in> set (?S t)" "p \<in> cells j"
    then have "p \<notin> \<Union>(cells ` set (?S tid))" using apart by blast
    then have "r1 ! p = inp ! p" using f4 by blast
    also have "\<dots> = inp0 ! p" using Cons.prems(4) h by simp
    finally show "r1 ! p = inp0 ! p" .
  qed
  from Cons.IH [OF dt tids f2 a1] obtain r where
    g1: "run_threads ?thr tids r1
          = Some (Inr (r, map (\<lambda>t. sum_list (map (\<lambda>i. tm i inp0) (?S t))) tids))"
    and g2: "length r = length inp0"
    and g3: "\<forall>t\<in>set tids. \<forall>i\<in>set (?S t). \<forall>p\<in>cells i. r ! p = wr i inp0 ! p"
    and g4: "\<forall>p. p \<notin> \<Union>(cells ` (\<Union>t\<in>set tids. set (?S t))) \<longrightarrow> r ! p = r1 ! p"
    by blast
  have g5: "\<forall>i\<in>set (?S tid). \<forall>p\<in>cells i. r ! p = wr i inp0 ! p"
  proof (intro ballI)
    fix i p assume h: "i \<in> set (?S tid)" "p \<in> cells i"
    then have "p \<notin> \<Union>(cells ` (\<Union>t\<in>set tids. set (?S t)))" using apart by blast
    then have "r ! p = r1 ! p" using g4 by blast
    then show "r ! p = wr i inp0 ! p" using f3 h by simp
  qed
  have g6: "\<forall>p. p \<notin> \<Union>(cells ` (\<Union>t\<in>set (tid # tids). set (?S t))) \<longrightarrow> r ! p = inp ! p"
  proof (intro allI impI)
    fix p assume "p \<notin> \<Union>(cells ` (\<Union>t\<in>set (tid # tids). set (?S t)))"
    then have p1: "p \<notin> \<Union>(cells ` (\<Union>t\<in>set tids. set (?S t)))"
      and p2: "p \<notin> \<Union>(cells ` set (?S tid))" by auto
    from p1 have "r ! p = r1 ! p" using g4 by blast
    then show "r ! p = inp ! p" using f4 p2 by simp
  qed
  have "run_threads ?thr (tid # tids) inp
      = Some (Inr (r, map (\<lambda>t. sum_list (map (\<lambda>i. tm i inp0) (?S t))) (tid # tids)))"
    using thr g1 by simp
  moreover have "\<forall>t\<in>set (tid # tids). \<forall>i\<in>set (?S t). \<forall>p\<in>cells i. r ! p = wr i inp0 ! p"
    using g3 g5 by simp
  ultimately show ?case using g2 g6 by blast
qed

lemma run_block_local:
  assumes L: "sample_local body ok wr tm cells {i. int i < n}"
    and ok0: "\<forall>i. int i < n \<longrightarrow> ok i inp0"
    and bd: "0 < bd"
  shows "\<exists>r slots. run_threads (\<lambda>tid inp. for_stride body n bd tid (inp, 0)) [0..<bd] inp0
             = Some (Inr (r, slots)) \<and>
           length r = length inp0 \<and>
           (\<forall>i. int i < n \<longrightarrow> (\<forall>p\<in>cells i. r ! p = wr i inp0 ! p)) \<and>
           (\<forall>p. (\<forall>i. int i < n \<longrightarrow> p \<notin> cells i) \<longrightarrow> r ! p = inp0 ! p) \<and>
           sum_list slots = (\<Sum>i<nat n. tm i inp0)"
proof -
  let ?slots = "map (\<lambda>tid. sum_list (map (\<lambda>i. tm i inp0) (stride_list n bd tid))) [0..<bd]"
  have "\<forall>tid\<in>set [0..<bd]. tid < bd" by simp
  from run_threads_local [OF L ok0 _ this, of inp0] obtain r where
    r1: "run_threads (\<lambda>tid inp. for_stride body n bd tid (inp, 0)) [0..<bd] inp0
          = Some (Inr (r, ?slots))"
    and r2: "length r = length inp0"
    and r3: "\<forall>tid\<in>set [0..<bd]. \<forall>i\<in>set (stride_list n bd tid). \<forall>p\<in>cells i.
               r ! p = wr i inp0 ! p"
    and r4: "\<forall>p. p \<notin> \<Union>(cells ` (\<Union>tid\<in>set [0..<bd]. set (stride_list n bd tid))) \<longrightarrow>
               r ! p = inp0 ! p"
    by auto
  note cover = stride_cover [OF bd, of n]
  have r5: "\<forall>i. int i < n \<longrightarrow> (\<forall>p\<in>cells i. r ! p = wr i inp0 ! p)"
  proof (intro allI impI)
    fix i assume "int i < n"
    then have "i \<in> (\<Union>tid\<in>set [0..<bd]. set (stride_list n bd tid))" using cover by simp
    then show "\<forall>p\<in>cells i. r ! p = wr i inp0 ! p" using r3 by blast
  qed
  have r6: "\<forall>p. (\<forall>i. int i < n \<longrightarrow> p \<notin> cells i) \<longrightarrow> r ! p = inp0 ! p"
  proof (intro allI impI)
    fix p assume "\<forall>i. int i < n \<longrightarrow> p \<notin> cells i"
    then have "p \<notin> \<Union>(cells ` {i. int i < n})" by blast
    then show "r ! p = inp0 ! p" using r4 unfolding cover by blast
  qed
  have "sum_list ?slots = (\<Sum>i<nat n. tm i inp0)" by (rule sum_slots [OF bd])
  with r1 r2 r5 r6 show ?thesis by blast
qed

subsection \<open>What the kernels compute\<close>

lemma CrossEntropy_sample_local:
  "sample_local (CrossEntropy_sample label batch_size 2 row_major scaler)
     (ce_ok label row_major batch_size) (ce_write label row_major batch_size scaler)
     (ce_term label row_major batch_size) (ce_cells row_major batch_size)
     {i. int i < batch_size}"
proof (rule sample_localI)
  fix i inp acc
  show "CrossEntropy_sample label batch_size 2 row_major scaler i (inp, acc) =
       (if ce_ok label row_major batch_size i inp
        then Inr (ce_write label row_major batch_size scaler i inp,
                  acc + ce_term label row_major batch_size i inp)
        else Inl Undefined_Behaviour)"
    by (simp add: CrossEntropy_sample_def ce_ok_def ce_write_def ce_term_def ce_id1_def
        ce_id2_def ce_sample_grad0_def ce_sample_grad1_def ce_sample_term_def Let_def in_buf_def)
next
  fix i inp
  show "length (ce_write label row_major batch_size scaler i inp) = length inp"
    by (simp add: ce_write_def)
next
  fix i inp p
  assume "p \<notin> ce_cells row_major batch_size i"
  then show "ce_write label row_major batch_size scaler i inp ! p = inp ! p"
    by (simp add: ce_write_def ce_cells_def)
next
  fix i j assume "i \<in> {i. int i < batch_size}" "j \<in> {i. int i < batch_size}" "i \<noteq> j"
  then show "ce_cells row_major batch_size i \<inter> ce_cells row_major batch_size j = {}"
    by (auto simp: ce_cells_def ce_id1_def ce_id2_def nat_eq_iff)
next
  fix i inp inp'
  assume len: "length inp = length (inp' :: real list)"
    and ag: "\<forall>p\<in>ce_cells row_major batch_size i. inp ! p = inp' ! p"
    and ok: "ce_ok label row_major batch_size i inp'"
  from ag have e1: "inp ! ce_id1 row_major 2 i = inp' ! ce_id1 row_major 2 i"
    and e2: "inp ! ce_id2 row_major 2 batch_size i = inp' ! ce_id2 row_major 2 batch_size i"
    by (simp_all add: ce_cells_def)
  have "ce_ok label row_major batch_size i inp" using ok len by (simp add: ce_ok_def)
  moreover have "ce_term label row_major batch_size i inp = ce_term label row_major batch_size i inp'"
    using e1 e2 by (simp add: ce_term_def)
  moreover have "\<forall>p\<in>ce_cells row_major batch_size i.
      ce_write label row_major batch_size scaler i inp ! p
        = ce_write label row_major batch_size scaler i inp' ! p"
    using e1 e2 ok len by (auto simp: ce_cells_def ce_write_def ce_ok_def nth_list_update)
  ultimately show "ce_ok label row_major batch_size i inp \<and>
       ce_term label row_major batch_size i inp = ce_term label row_major batch_size i inp' \<and>
       (\<forall>p\<in>ce_cells row_major batch_size i.
           ce_write label row_major batch_size scaler i inp ! p =
           ce_write label row_major batch_size scaler i inp' ! p)" by blast
qed

lemma CrossEntropy_Kernel_result:
  assumes bd: "0 < blockDim" and li: "nat (2 * batch_size) \<le> length input"
    and ll: "nat batch_size \<le> length label" and lo: "cel_loss \<noteq> []"
  shows "\<exists>r. CrossEntropy_Kernel blockDim input label cel_loss batch_size 2 row_major scaler
           = Some (Inr (r, cel_loss[0 :=
               (\<Sum>i<nat batch_size.
                   ce_sample_term (input ! ce_id1 row_major 2 i)
                     (input ! ce_id2 row_major 2 batch_size i) (label ! i))
                 / real_of_int batch_size])) \<and>
         length r = length input \<and>
         (\<forall>i. int i < batch_size \<longrightarrow>
              r ! ce_id1 row_major 2 i
                = ce_sample_grad0 (input ! ce_id1 row_major 2 i)
                    (input ! ce_id2 row_major 2 batch_size i) (label ! i) batch_size scaler \<and>
              r ! ce_id2 row_major 2 batch_size i
                = ce_sample_grad1 (input ! ce_id1 row_major 2 i)
                    (input ! ce_id2 row_major 2 batch_size i) (label ! i) batch_size scaler)"
proof -
  have ok0: "\<forall>i. int i < batch_size \<longrightarrow> ce_ok label row_major batch_size i input"
    using li ll by (auto simp: ce_ok_def ce_id1_def ce_id2_def)
  from run_block_local [OF CrossEntropy_sample_local ok0 bd, of scaler]
  obtain r slots where
    r1: "run_threads (\<lambda>tid inp. for_stride
            (CrossEntropy_sample label batch_size 2 row_major scaler)
            batch_size blockDim tid (inp, 0)) [0..<blockDim] input = Some (Inr (r, slots))"
    and r2: "length r = length input"
    and r3: "\<forall>i. int i < batch_size \<longrightarrow> (\<forall>p\<in>ce_cells row_major batch_size i.
               r ! p = ce_write label row_major batch_size scaler i input ! p)"
    and r5: "sum_list slots = (\<Sum>i<nat batch_size. ce_term label row_major batch_size i input)"
    by blast
  have "CrossEntropy_Kernel blockDim input label cel_loss batch_size 2 row_major scaler
           = Some (Inr (r, cel_loss[0 :=
               (\<Sum>i<nat batch_size.
                   ce_sample_term (input ! ce_id1 row_major 2 i)
                     (input ! ce_id2 row_major 2 batch_size i) (label ! i))
                 / real_of_int batch_size]))"
    using r1 r5 lo by (simp add: CrossEntropy_Kernel_def foldl_plus_sum_list ce_term_def)
  moreover have "\<forall>i. int i < batch_size \<longrightarrow>
              r ! ce_id1 row_major 2 i
                = ce_sample_grad0 (input ! ce_id1 row_major 2 i)
                    (input ! ce_id2 row_major 2 batch_size i) (label ! i) batch_size scaler \<and>
              r ! ce_id2 row_major 2 batch_size i
                = ce_sample_grad1 (input ! ce_id1 row_major 2 i)
                    (input ! ce_id2 row_major 2 batch_size i) (label ! i) batch_size scaler"
  proof (intro allI impI)
    fix i assume i: "int i < batch_size"
    then have ok: "ce_ok label row_major batch_size i input" using ok0 by blast
    have ne: "ce_id1 row_major 2 i \<noteq> ce_id2 row_major 2 batch_size i"
      using i by (auto simp: ce_id1_def ce_id2_def)
    from r3 i have "r ! ce_id1 row_major 2 i
          = ce_write label row_major batch_size scaler i input ! ce_id1 row_major 2 i"
      and "r ! ce_id2 row_major 2 batch_size i
          = ce_write label row_major batch_size scaler i input ! ce_id2 row_major 2 batch_size i"
      by (simp_all add: ce_cells_def)
    then show "r ! ce_id1 row_major 2 i
                = ce_sample_grad0 (input ! ce_id1 row_major 2 i)
                    (input ! ce_id2 row_major 2 batch_size i) (label ! i) batch_size scaler \<and>
              r ! ce_id2 row_major 2 batch_size i
                = ce_sample_grad1 (input ! ce_id1 row_major 2 i)
                    (input ! ce_id2 row_major 2 batch_size i) (label ! i) batch_size scaler"
      using ok ne by (simp add: ce_write_def ce_ok_def)
  qed
  ultimately show ?thesis using r2 by blast
qed

lemma BinaryCrossEntropy_sample_local:
  "sample_local (BinaryCrossEntropy_sample label scaler batch_size)
     (\<lambda>i inp. i < length inp \<and> i < length label)
     (\<lambda>i inp. inp[i := bce_sample_grad (inp ! i) (label ! i) batch_size scaler])
     (\<lambda>i inp. bce_sample_term (inp ! i) (label ! i))
     (\<lambda>i. {i}) I"
  unfolding sample_local_def
  by (simp add: BinaryCrossEntropy_sample_def bce_sample_grad_def bce_sample_term_def Let_def)

lemma BinaryCrossEntropy_Kernel_result:
  assumes bd: "0 < blockDim" and li: "nat batch_size \<le> length input"
    and ll: "nat batch_size \<le> length label" and lo: "bce_loss \<noteq> []"
  shows "\<exists>r. BinaryCrossEntropy_Kernel blockDim input label bce_loss scaler batch_size
           = Some (Inr (r, bce_loss[0 :=
               - (\<Sum>i<nat batch_size. bce_sample_term (input ! i) (label ! i))
                 / real_of_int batch_size])) \<and>
         length r = length input \<and>
         (\<forall>i. int i < batch_size \<longrightarrow>
              r ! i = bce_sample_grad (input ! i) (label ! i) batch_size scaler) \<and>
         (\<forall>p. \<not> int p < batch_size \<longrightarrow> r ! p = input ! p)"
proof -
  have ok0: "\<forall>i. int i < batch_size \<longrightarrow> i < length input \<and> i < length label"
    using li ll by auto
  from run_block_local [OF BinaryCrossEntropy_sample_local ok0 bd, of scaler]
  obtain r slots where
    r1: "run_threads (\<lambda>tid inp. for_stride (BinaryCrossEntropy_sample label scaler batch_size)
            batch_size blockDim tid (inp, 0)) [0..<blockDim] input = Some (Inr (r, slots))"
    and r2: "length r = length input"
    and r3: "\<forall>i. int i < batch_size \<longrightarrow> (\<forall>p\<in>{i}.
               r ! p = input[i := bce_sample_grad (input ! i) (label ! i) batch_size scaler] ! p)"
    and r4: "\<forall>p. (\<forall>i. int i < batch_size \<longrightarrow> p \<notin> {i}) \<longrightarrow> r ! p = input ! p"
    and r5: "sum_list slots = (\<Sum>i<nat batch_size. bce_sample_term (input ! i) (label ! i))"
    by blast
  have "BinaryCrossEntropy_Kernel blockDim input label bce_loss scaler batch_size
           = Some (Inr (r, bce_loss[0 :=
               - (\<Sum>i<nat batch_size. bce_sample_term (input ! i) (label ! i))
                 / real_of_int batch_size]))"
    using r1 r5 lo by (simp add: BinaryCrossEntropy_Kernel_def foldl_plus_sum_list)
  moreover have "\<forall>i. int i < batch_size \<longrightarrow>
              r ! i = bce_sample_grad (input ! i) (label ! i) batch_size scaler"
    using r3 ok0 by simp
  moreover have "\<forall>p. \<not> int p < batch_size \<longrightarrow> r ! p = input ! p"
    using r4 by simp
  ultimately show ?thesis using r2 by blast
qed

lemma c_rem_nat: "0 < b \<Longrightarrow> c_rem (int i) b = int i mod b"
  by (simp add: c_rem_def c_div_def sgn_if minus_mult_div_eq_mod)

lemma MultiCrossEntropy_elem_local:
  "sample_local (MultiCrossEntropy_elem label weights labels_per_sample sz scaler)
     (\<lambda>i inp. labels_per_sample \<noteq> 0 \<and> i < length inp \<and> i < length label \<and>
        (label ! i < - (1 / 2) \<or> in_buf weights (c_rem (int i) labels_per_sample)))
     (\<lambda>i inp. inp[i := mce_elem_grad weights labels_per_sample sz scaler i (inp ! i) (label ! i)])
     (\<lambda>i inp. mce_elem_term weights labels_per_sample i (inp ! i) (label ! i))
     (\<lambda>i. {i}) I"
  unfolding sample_local_def
  by (auto simp: MultiCrossEntropy_elem_def mce_elem_grad_def mce_elem_term_def Let_def)

lemma MultiCrossEntropy_Kernel_result:
  assumes gd: "0 < gridDim" and bd: "0 < blockDim"
    and lps: "0 < labels_per_sample" and lw: "nat labels_per_sample \<le> length weights"
    and li: "nat (batchsize * labels_per_sample) \<le> length input"
    and ll: "nat (batchsize * labels_per_sample) \<le> length label"
    and lo: "bce_loss \<noteq> []"
  shows "\<exists>r. MultiCrossEntropy_Kernel gridDim blockDim input label weights bce_loss batchsize
             labels_per_sample scaler
           = Some (Inr (r, bce_loss[0 := bce_loss ! 0 -
               (\<Sum>i<nat (batchsize * labels_per_sample).
                   mce_elem_term weights labels_per_sample i (input ! i) (label ! i))
                 / real_of_int (batchsize * labels_per_sample)])) \<and>
         length r = length input \<and>
         (\<forall>i. int i < batchsize * labels_per_sample \<longrightarrow>
              r ! i = mce_elem_grad weights labels_per_sample (batchsize * labels_per_sample)
                        scaler i (input ! i) (label ! i)) \<and>
         (\<forall>p. \<not> int p < batchsize * labels_per_sample \<longrightarrow> r ! p = input ! p)"
proof -
  let ?sz = "batchsize * labels_per_sample"
  have inb: "in_buf weights (c_rem (int i) labels_per_sample)" for i
  proof -
    have "0 \<le> int i mod labels_per_sample" "int i mod labels_per_sample < labels_per_sample"
      using lps by simp_all
    then show ?thesis using lw by (simp add: in_buf_def c_rem_nat [OF lps] nat_less_iff)
  qed
  have ok0: "\<forall>i. int i < ?sz \<longrightarrow> labels_per_sample \<noteq> 0 \<and> i < length input \<and>
      i < length label \<and>
      (label ! i < - (1 / 2) \<or> in_buf weights (c_rem (int i) labels_per_sample))"
    using li ll lps inb by auto
  have step: "0 < blockDim * gridDim" using gd bd by simp
  from run_block_local [OF MultiCrossEntropy_elem_local ok0 step, of "?sz" scaler]
  obtain r slots where
    r1: "run_threads (\<lambda>tid inp. for_stride
            (MultiCrossEntropy_elem label weights labels_per_sample ?sz scaler)
            ?sz (blockDim * gridDim) tid (inp, 0)) [0..<blockDim * gridDim] input
          = Some (Inr (r, slots))"
    and r2: "length r = length input"
    and r3: "\<forall>i. int i < ?sz \<longrightarrow> (\<forall>p\<in>{i}.
               r ! p = input[i := mce_elem_grad weights labels_per_sample ?sz scaler i
                                    (input ! i) (label ! i)] ! p)"
    and r4: "\<forall>p. (\<forall>i. int i < ?sz \<longrightarrow> p \<notin> {i}) \<longrightarrow> r ! p = input ! p"
    and r5: "sum_list slots = (\<Sum>i<nat ?sz.
               mce_elem_term weights labels_per_sample i (input ! i) (label ! i))"
    by blast
  have "MultiCrossEntropy_Kernel gridDim blockDim input label weights bce_loss batchsize
             labels_per_sample scaler
           = Some (Inr (r, bce_loss[0 := bce_loss ! 0 -
               (\<Sum>i<nat ?sz. mce_elem_term weights labels_per_sample i (input ! i) (label ! i))
                 / real_of_int ?sz]))"
    using r1 r5 lo
    by (simp add: MultiCrossEntropy_Kernel_def grid_threads_upt foldl_atomic_sum Let_def)
  moreover have "\<forall>i. int i < ?sz \<longrightarrow>
      r ! i = mce_elem_grad weights labels_per_sample ?sz scaler i (input ! i) (label ! i)"
    using r3 ok0 by simp
  moreover have "\<forall>p. \<not> int p < ?sz \<longrightarrow> r ! p = input ! p"
    using r4 by simp
  ultimately show ?thesis using r2 by blast
qed

text \<open>Claim C5. In MultiCrossEntropy_Kernel, for every element whose label is below
  \<open>-0.5\<close>, whatever the input value and the weights, the gradient written back is exactly 0
  and the element adds nothing to the accumulated loss: the loss is the loss tensor's
  value before the launch less the sum over the elements that are not masked, divided by
  the element count. The kernel is launched on a grid that exists, over arrays that hold
  every element, with one weight per label column.\<close>

theorem MultiCrossEntropy_Kernel_masking:
  assumes "0 < gridDim" and "0 < blockDim"
    and "0 < labels_per_sample" and "nat labels_per_sample \<le> length weights"
    and "nat (batchsize * labels_per_sample) \<le> length input"
    and "nat (batchsize * labels_per_sample) \<le> length label"
    and "bce_loss \<noteq> []"
  shows "\<exists>r. MultiCrossEntropy_Kernel gridDim blockDim input label weights bce_loss batchsize
             labels_per_sample scaler
           = Some (Inr (r, bce_loss[0 := bce_loss ! 0 -
               (\<Sum>i \<in> {i. i < nat (batchsize * labels_per_sample) \<and> \<not> label ! i < - (1 / 2)}.
                   weights ! nat (c_rem (int i) labels_per_sample)
                     * cross_entropy_loss (input ! i) (label ! i))
                 / real_of_int (batchsize * labels_per_sample)])) \<and>
         (\<forall>i. int i < batchsize * labels_per_sample \<and> label ! i < - (1 / 2) \<longrightarrow> r ! i = 0)"
proof -
  let ?n = "nat (batchsize * labels_per_sample)"
  have "(\<Sum>i<?n. mce_elem_term weights labels_per_sample i (input ! i) (label ! i))
      = (\<Sum>i \<in> {i \<in> {..<?n}. \<not> label ! i < - (1 / 2)}.
           weights ! nat (c_rem (int i) labels_per_sample)
             * cross_entropy_loss (input ! i) (label ! i))"
    unfolding mce_elem_term_def
    by (subst sum.inter_filter) (auto intro: sum.cong)
  moreover have "{i \<in> {..<?n}. \<not> label ! i < - (1 / 2)}
      = {i. i < ?n \<and> \<not> label ! i < - (1 / 2)}" by auto
  ultimately show ?thesis
    using MultiCrossEntropy_Kernel_result [OF assms, of scaler]
    by (auto simp: mce_elem_grad_def)
qed

theorem MultiCrossEntropy_Kernel_masking_witness:
  "\<exists>r. MultiCrossEntropy_Kernel 1 256 [5, 7] [- 1, 1] [3, 4] [0] 1 2 1
       = Some (Inr (r, [0 - (\<Sum>i \<in> {i. i < 2 \<and> \<not> [- 1, 1 :: real] ! i < - (1 / 2)}.
                   [3, 4] ! nat (c_rem (int i) 2) * cross_entropy_loss ([5, 7] ! i) ([- 1, 1] ! i))
                 / 2])) \<and>
       r ! 0 = 0"
proof -
  from MultiCrossEntropy_Kernel_masking [of 1 256 2 "[3, 4]" 1 "[5, 7]" "[- 1, 1]" "[0]" 1]
  obtain r where
    r: "MultiCrossEntropy_Kernel 1 256 [5, 7] [- 1, 1] [3, 4] [0] 1 2 1
       = Some (Inr (r, [0 - (\<Sum>i \<in> {i. i < 2 \<and> \<not> [- 1, 1 :: real] ! i < - (1 / 2)}.
                   [3, 4] ! nat (c_rem (int i) 2) * cross_entropy_loss ([5, 7] ! i) ([- 1, 1] ! i))
                 / 2]))"
      "\<forall>i. int i < 1 * 2 \<and> [- 1, 1 :: real] ! i < - (1 / 2) \<longrightarrow> r ! i = 0"
    by auto
  from r(2) have "r ! 0 = 0"
    by (drule_tac x = 0 in spec) simp
  with r(1) show ?thesis by blast
qed

text \<open>Claim C6, as stated: the class indicator of CrossEntropy_Kernel takes a label of
  exactly 1.0 for the positive class and every other label for the negative class. The
  kernel compares the label with 0.5 instead. For one sample with logits \<open>(0, 0)\<close> and
  label 0.75 it writes the gradients \<open>(1/2, -1/2)\<close>, those of the positive class, where the
  stated indicator gives \<open>(-1/2, 1/2)\<close>.\<close>

theorem CrossEntropy_Kernel_label_three_quarters:
  "CrossEntropy_Kernel 1 [0, 0] [3 / 4] [0] 1 2 True 1
     = Some (Inr ([1 / 2, - (1 / 2)], [ln 2])) \<and>
   [spec_ce_gradient (spec_softmax 0 0) (3 / 4) 0 1 1,
    spec_ce_gradient (spec_softmax 0 0) (3 / 4) 1 1 1] = [- (1 / 2), 1 / 2]"
  by (simp add: CrossEntropy_Kernel_def for_stride.simps CrossEntropy_sample_def in_buf_def
      Let_def ln_div spec_ce_gradient_def spec_ce_indicator_def spec_softmax_def)

text \<open>Claim C6, amended. In CrossEntropy_Kernel, for every sample, the class indicator used in
  the loss term and in the gradient \<open>(a_c - indicator) / batchSize * scaler\<close> written in
  place takes a label below 0.5 for the negative class (the logit at \<open>id1\<close>) and every
  other label for the positive class (the logit at \<open>id2\<close>).\<close>

theorem CrossEntropy_Kernel_threshold:
  assumes "0 < blockDim" and "nat (2 * batch_size) \<le> length input"
    and "nat batch_size \<le> length label" and "cel_loss \<noteq> []"
  shows "\<exists>r. CrossEntropy_Kernel blockDim input label cel_loss batch_size 2 row_major scaler
           = Some (Inr (r, cel_loss[0 :=
               (\<Sum>i<nat batch_size.
                   - ln (if label ! i < 1 / 2
                         then spec_softmax (input ! ce_id1 row_major 2 i)
                                (input ! ce_id2 row_major 2 batch_size i)
                         else spec_softmax (input ! ce_id2 row_major 2 batch_size i)
                                (input ! ce_id1 row_major 2 i)))
                 / real_of_int batch_size])) \<and>
         (\<forall>i. int i < batch_size \<longrightarrow>
              r ! ce_id1 row_major 2 i
                = (spec_softmax (input ! ce_id1 row_major 2 i)
                     (input ! ce_id2 row_major 2 batch_size i)
                   - (if label ! i < 1 / 2 then 1 else 0))
                  / real_of_int batch_size * real_of_int scaler \<and>
              r ! ce_id2 row_major 2 batch_size i
                = (spec_softmax (input ! ce_id2 row_major 2 batch_size i)
                     (input ! ce_id1 row_major 2 i)
                   - (if label ! i < 1 / 2 then 0 else 1))
                  / real_of_int batch_size * real_of_int scaler)"
proof -
  have t: "ce_sample_term x0 x1 y
      = - ln (if y < 1 / 2 then spec_softmax x0 x1 else spec_softmax x1 x0)" for x0 x1 y
    by (simp add: ce_sample_term_def spec_softmax_def Let_def add.commute)
  have g0: "ce_sample_grad0 x0 x1 y B S
      = (spec_softmax x0 x1 - (if y < 1 / 2 then 1 else 0)) / real_of_int B * real_of_int S"
    for x0 x1 y B S
    by (simp add: ce_sample_grad0_def spec_softmax_def Let_def)
  have g1: "ce_sample_grad1 x0 x1 y B S
      = (spec_softmax x1 x0 - (if y < 1 / 2 then 0 else 1)) / real_of_int B * real_of_int S"
    for x0 x1 y B S
    by (simp add: ce_sample_grad1_def spec_softmax_def Let_def add.commute)
  from CrossEntropy_Kernel_result [OF assms, of row_major scaler]
  show ?thesis unfolding t g0 g1 by blast
qed

theorem CrossEntropy_Kernel_threshold_witness:
  "\<exists>r. CrossEntropy_Kernel 2 [2, 0, 0, 2] [1, 0] [0] 2 2 True 1
       = Some (Inr (r, [(\<Sum>i<2. - ln (if [1, 0 :: real] ! i < 1 / 2
                         then spec_softmax ([2, 0, 0, 2] ! ce_id1 True 2 i)
                                ([2, 0, 0, 2] ! ce_id2 True 2 2 i)
                         else spec_softmax ([2, 0, 0, 2] ! ce_id2 True 2 2 i)
                                ([2, 0, 0, 2] ! ce_id1 True 2 i))) / 2])) \<and>
       r ! 0 = (spec_softmax 2 0 - 0) / 2 * 1 \<and> r ! 1 = (spec_softmax 0 2 - 1) / 2 * 1"
proof -
  from CrossEntropy_Kernel_threshold [of 2 2 "[2, 0, 0, 2]" "[1, 0]" "[0]" True 1]
  obtain r where
    r: "CrossEntropy_Kernel 2 [2, 0, 0, 2] [1, 0] [0] 2 2 True 1
       = Some (Inr (r, [(\<Sum>i<2. - ln (if [1, 0 :: real] ! i < 1 / 2
                         then spec_softmax ([2, 0, 0, 2] ! ce_id1 True 2 i)
                                ([2, 0, 0, 2] ! ce_id2 True 2 2 i)
                         else spec_softmax ([2, 0, 0, 2] ! ce_id2 True 2 2 i)
                                ([2, 0, 0, 2] ! ce_id1 True 2 i))) / 2]))"
     "\<forall>i. int i < 2 \<longrightarrow>
              r ! ce_id1 True 2 i
                = (spec_softmax ([2, 0, 0, 2] ! ce_id1 True 2 i) ([2, 0, 0, 2] ! ce_id2 True 2 2 i)
                   - (if [1, 0 :: real] ! i < 1 / 2 then 1 else 0))
                  / real_of_int 2 * real_of_int 1 \<and>
              r ! ce_id2 True 2 2 i
                = (spec_softmax ([2, 0, 0, 2] ! ce_id2 True 2 2 i) ([2, 0, 0, 2] ! ce_id1 True 2 i)
                   - (if [1, 0 :: real] ! i < 1 / 2 then 0 else 1))
                  / real_of_int 2 * real_of_int 1"
    by auto
  from r(2) have "r ! 0 = (spec_softmax 2 0 - 0) / 2 * 1 \<and> r ! 1 = (spec_softmax 0 2 - 1) / 2 * 1"
    by (drule_tac x = 0 in spec) (simp add: ce_id1_def ce_id2_def)
  with r(1) show ?thesis by blast
qed

lemma bce_sample_term_spec: "bce_sample_term x y = spec_bce_term x y"
  by (simp add: bce_sample_term_def spec_bce_term_def spec_bce_val_def spec_bce_clamp_def
      spec_eps_def MIN_X_def MIN_eps_def Let_def max_def)

lemma bce_sample_grad_spec: "bce_sample_grad x y B S = spec_bce_gradient x y B S"
  by (simp add: bce_sample_grad_def spec_bce_gradient_def spec_bce_val_def spec_bce_clamp_def
      spec_eps_def MIN_X_def MIN_eps_def Let_def max_def)

text \<open>Claim C7. In BinaryCrossEntropy_Kernel, for every sample with logit \<open>x\<close> and label
  \<open>y\<close>, the logit is clamped to \<open>max(x, -707)\<close> before \<open>exp(-x)\<close> is taken, the loss term
  is \<open>y ln(val + \<epsilon>) + (1 - y) ln(1 - val + \<epsilon>)\<close> with \<open>val = 1 / (1 + exp(-x))\<close> and
  \<open>\<epsilon> = 1e-6\<close>, and the value written over \<open>input[i]\<close> is
  \<open>-val (y - val) exp(-x) / (1 - val + \<epsilon>) / batchSize * scaler\<close>. The loss written is the
  negated mean of the loss terms; the positions beyond the batch keep their values.\<close>

theorem BinaryCrossEntropy_Kernel_formulas:
  assumes "0 < blockDim" and "nat batch_size \<le> length input"
    and "nat batch_size \<le> length label" and "bce_loss \<noteq> []"
  shows "\<exists>r. BinaryCrossEntropy_Kernel blockDim input label bce_loss scaler batch_size
           = Some (Inr (r, bce_loss[0 :=
               - (\<Sum>i<nat batch_size. spec_bce_term (input ! i) (label ! i))
                 / real_of_int batch_size])) \<and>
         length r = length input \<and>
         (\<forall>i. int i < batch_size \<longrightarrow>
              r ! i = spec_bce_gradient (input ! i) (label ! i) batch_size scaler) \<and>
         (\<forall>p. \<not> int p < batch_size \<longrightarrow> r ! p = input ! p)"
  using BinaryCrossEntropy_Kernel_result [OF assms, of scaler]
  by (simp add: bce_sample_term_spec bce_sample_grad_spec)

theorem BinaryCrossEntropy_Kernel_formulas_witness:
  "\<exists>r. BinaryCrossEntropy_Kernel 2 [0, 0, 0, 0] [1, 1, 0, 0] [0] 1 4
           = Some (Inr (r, [- (\<Sum>i<4. spec_bce_term ([0, 0, 0, 0] ! i) ([1, 1, 0, 0] ! i)) / 4])) \<and>
         length r = 4 \<and>
         r ! 0 = spec_bce_gradient 0 1 4 1 \<and> r ! 3 = spec_bce_gradient 0 0 4 1"
proof -
  from BinaryCrossEntropy_Kernel_formulas [of 2 4 "[0, 0, 0, 0]" "[1, 1, 0, 0]" "[0]" 1]
  obtain r where
    r: "BinaryCrossEntropy_Kernel 2 [0, 0, 0, 0] [1, 1, 0, 0] [0] 1 4
           = Some (Inr (r, [- (\<Sum>i<4. spec_bce_term ([0, 0, 0, 0] ! i) ([1, 1, 0, 0] ! i)) / 4]))"
      "length r = 4"
      "\<forall>i. int i < 4 \<longrightarrow> r ! i = spec_bce_gradient ([0, 0, 0, 0] ! i) ([1, 1, 0, 0] ! i) 4 1"
    by auto
  from r(3) have "r ! 0 = spec_bce_gradient 0 1 4 1"
    by (drule_tac x = 0 in spec) simp
  moreover from r(3) have "r ! 3 = spec_bce_gradient 0 0 4 1"
    by (drule_tac x = 3 in spec) simp
  ultimately show ?thesis using r(1,2) by blast
qed

subsection \<open>What the host functions compute\<close>

lemma CrossEntropyLoss_checks_pass:
  assumes "format label_tensor = format input_tensor"
    and "length (dims input_tensor) = 2" and "length (dims label_tensor) = 2"
    and "spec_feature_dim input_tensor = 2"
    and "spec_batch_dim label_tensor = spec_batch_dim input_tensor"
  shows "CrossEntropyLoss_checks input_tensor label_tensor
           = Inr (spec_batch_dim input_tensor, 2, format input_tensor = HW)"
  using assms
  by (cases "format input_tensor = HW")
    (simp_all add: CrossEntropyLoss_checks_def vec_at_def spec_batch_dim_def
      spec_feature_dim_def Let_def)

lemma BinaryCrossEntropyLoss_checks_pass:
  assumes "format label_tensor = format input_tensor"
    and "length (dims input_tensor) = 2"
    and "spec_feature_dim input_tensor = 1"
  shows "BinaryCrossEntropyLoss_checks input_tensor label_tensor
           = Inr (spec_batch_dim input_tensor)"
  using assms
  by (cases "format input_tensor = HW")
    (simp_all add: BinaryCrossEntropyLoss_checks_def vec_at_def spec_batch_dim_def
      spec_feature_dim_def Let_def)

lemma restore_device:
  assumes "0 \<le> cur_device w" and "cur_device w < device_count w"
  shows "get_set_device (cur_device w) (w\<lparr>cur_device := d, mem := m\<rparr>)
           = Inr (d, w\<lparr>mem := m\<rparr>)"
  using assms by (simp add: get_set_device_def)

lemma CrossEntropyLoss_fused_result:
  assumes t: "input_tensors this = [it]" "label_tensors this = [lt]" "loss_tensors this = [st]"
    and chk: "CrossEntropyLoss_checks it lt = Inr (B, 2, rm)"
    and dev: "0 \<le> device_id this" "device_id this < device_count w"
      "0 \<le> cur_device w" "cur_device w < device_count w"
    and B: "1 \<le> B"
    and sz: "nat (2 * B) \<le> length (mem w (ptr it))" "nat B \<le> length (mem w (ptr lt))"
      "mem w (ptr st) \<noteq> []"
  shows "\<exists>r l. CrossEntropyLoss_fused_loss_computation b this w
            = Some (Inr (), w\<lparr>mem := (mem w)(ptr it := r, ptr st := l)\<rparr>) \<and>
          length r = length (mem w (ptr it)) \<and>
          (\<forall>i. int i < B \<longrightarrow>
              r ! ce_id1 rm 2 i
                = ce_sample_grad0 (mem w (ptr it) ! ce_id1 rm 2 i)
                    (mem w (ptr it) ! ce_id2 rm 2 B i) (mem w (ptr lt) ! i) B (scaler_of b) \<and>
              r ! ce_id2 rm 2 B i
                = ce_sample_grad1 (mem w (ptr it) ! ce_id1 rm 2 i)
                    (mem w (ptr it) ! ce_id2 rm 2 B i) (mem w (ptr lt) ! i) B (scaler_of b))"
proof -
  have bd: "0 < nat (min B 1024)" using B by simp
  from CrossEntropy_Kernel_result [OF bd sz, of rm "scaler_of b"]
  obtain r l where
    k: "CrossEntropy_Kernel (nat (min B 1024)) (mem w (ptr it)) (mem w (ptr lt))
          (mem w (ptr st)) B 2 rm (scaler_of b) = Some (Inr (r, l))"
    and r2: "length r = length (mem w (ptr it))"
    and r3: "\<forall>i. int i < B \<longrightarrow>
              r ! ce_id1 rm 2 i
                = ce_sample_grad0 (mem w (ptr it) ! ce_id1 rm 2 i)
                    (mem w (ptr it) ! ce_id2 rm 2 B i) (mem w (ptr lt) ! i) B (scaler_of b) \<and>
              r ! ce_id2 rm 2 B i
                = ce_sample_grad1 (mem w (ptr it) ! ce_id1 rm 2 i)
                    (mem w (ptr it) ! ce_id2 rm 2 B i) (mem w (ptr lt) ! i) B (scaler_of b)"
    by blast
  have ok: "launch_ok 1 (min B 1024)" using B by (simp add: launch_ok_def)
  let ?w1 = "w\<lparr>cur_device := device_id this\<rparr>"
  have g: "get_set_device (device_id this) w = Inr (cur_device w, ?w1)"
    using dev by (simp add: get_set_device_def)
  have c: "CrossEntropyLoss_compute b this ?w1
      = Some (Inr (), ?w1\<lparr>mem := (mem w)(ptr it := r, ptr st := l)\<rparr>)"
    using t chk k ok
    by (simp add: CrossEntropyLoss_compute_def vec_at_def CrossEntropyLoss_launch_def Let_def)
  have "CrossEntropyLoss_fused_loss_computation b this w
            = Some (Inr (), w\<lparr>mem := (mem w)(ptr it := r, ptr st := l)\<rparr>)"
    using g c restore_device [OF dev(3,4)]
    by (simp add: CrossEntropyLoss_fused_loss_computation_def)
  with r2 r3 show ?thesis by blast
qed

lemma BinaryCrossEntropyLoss_fused_result:
  assumes t: "input_tensors this = [it]" "label_tensors this = [lt]" "loss_tensors this = [st]"
    and chk: "BinaryCrossEntropyLoss_checks it lt = Inr B"
    and dev: "0 \<le> device_id this" "device_id this < device_count w"
      "0 \<le> cur_device w" "cur_device w < device_count w"
    and B: "1 \<le> B"
    and sz: "nat B \<le> length (mem w (ptr it))" "nat B \<le> length (mem w (ptr lt))"
      "mem w (ptr st) \<noteq> []"
  shows "\<exists>r l. BinaryCrossEntropyLoss_fused_loss_computation b this w
            = Some (Inr (), w\<lparr>mem := (mem w)(ptr it := r, ptr st := l)\<rparr>) \<and>
          length r = length (mem w (ptr it)) \<and>
          (\<forall>i. int i < B \<longrightarrow>
              r ! i = bce_sample_grad (mem w (ptr it) ! i) (mem w (ptr lt) ! i) B (scaler_of b))"
proof -
  have bd: "0 < nat (min B 1024)" using B by simp
  from BinaryCrossEntropy_Kernel_result [OF bd sz, of "scaler_of b"]
  obtain r l where
    k: "BinaryCrossEntropy_Kernel (nat (min B 1024)) (mem w (ptr it)) (mem w (ptr lt))
          (mem w (ptr st)) (scaler_of b) B = Some (Inr (r, l))"
    and r2: "length r = length (mem w (ptr it))"
    and r3: "\<forall>i. int i < B \<longrightarrow>
              r ! i = bce_sample_grad (mem w (ptr it) ! i) (mem w (ptr lt) ! i) B (scaler_of b)"
    by blast
  have ok: "launch_ok 1 (min B 1024)" using B by (simp add: launch_ok_def)
  let ?w1 = "w\<lparr>cur_device := device_id this\<rparr>"
  have g: "get_set_device (device_id this) w = Inr (cur_device w, ?w1)"
    using dev by (simp add: get_set_device_def)
  have c: "BinaryCrossEntropyLoss_compute b this ?w1
      = Some (Inr (), ?w1\<lparr>mem := (mem w)(ptr it := r, ptr st := l)\<rparr>)"
    using t chk k ok
    by (simp add: BinaryCrossEntropyLoss_compute_def vec_at_def
        BinaryCrossEntropyLoss_launch_def Let_def)
  have "BinaryCrossEntropyLoss_fused_loss_computation b this w
            = Some (Inr (), w\<lparr>mem := (mem w)(ptr it := r, ptr st := l)\<rparr>)"
    using g c restore_device [OF dev(3,4)]
    by (simp add: BinaryCrossEntropyLoss_fused_loss_computation_def)
  with r2 r3 show ?thesis by blast
qed

text \<open>Claim C10. Neither CrossEntropyLoss nor BinaryCrossEntropyLoss constrains the feature
  dimension of the label tensor. For a label tensor of the input's format (and, for
  CrossEntropyLoss, of two dimensions with the input's batch dimension), whatever its
  feature dimension, the checks pass and the call returns normally; the gradient of
  sample \<open>i\<close> is computed from the value at flat index \<open>i\<close> of the label buffer. No
  hypothesis mentions the feature dimension of the label.\<close>

theorem label_feature_dimension_unchecked:
  assumes "input_tensors this = [input_tensor]" and "label_tensors this = [label_tensor]"
    and "loss_tensors this = [loss_tensor]"
    and "format label_tensor = format input_tensor"
    and "length (dims input_tensor) = 2"
    and "0 \<le> device_id this" and "device_id this < device_count w"
    and "0 \<le> cur_device w" and "cur_device w < device_count w"
    and "1 \<le> spec_batch_dim input_tensor"
    and "nat (spec_feature_dim input_tensor * spec_batch_dim input_tensor)
           \<le> length (mem w (ptr input_tensor))"
    and "nat (spec_batch_dim input_tensor) \<le> length (mem w (ptr label_tensor))"
    and "mem w (ptr loss_tensor) \<noteq> []"
  shows "(spec_feature_dim input_tensor = 2 \<and> length (dims label_tensor) = 2 \<and>
          spec_batch_dim label_tensor = spec_batch_dim input_tensor \<longrightarrow>
          (\<exists>r l. CrossEntropyLoss_fused_loss_computation b this w
              = Some (Inr (), w\<lparr>mem := (mem w)(ptr input_tensor := r, ptr loss_tensor := l)\<rparr>) \<and>
            (\<forall>i. int i < spec_batch_dim input_tensor \<longrightarrow>
               r ! ce_id1 (format input_tensor = HW) 2 i
                 = ce_sample_grad0
                     (mem w (ptr input_tensor) ! ce_id1 (format input_tensor = HW) 2 i)
                     (mem w (ptr input_tensor)
                        ! ce_id2 (format input_tensor = HW) 2 (spec_batch_dim input_tensor) i)
                     (mem w (ptr label_tensor) ! i)
                     (spec_batch_dim input_tensor) (scaler_of b) \<and>
               r ! ce_id2 (format input_tensor = HW) 2 (spec_batch_dim input_tensor) i
                 = ce_sample_grad1
                     (mem w (ptr input_tensor) ! ce_id1 (format input_tensor = HW) 2 i)
                     (mem w (ptr input_tensor)
                        ! ce_id2 (format input_tensor = HW) 2 (spec_batch_dim input_tensor) i)
                     (mem w (ptr label_tensor) ! i)
                     (spec_batch_dim input_tensor) (scaler_of b)))) \<and>
         (spec_feature_dim input_tensor = 1 \<longrightarrow>
          (\<exists>r l. BinaryCrossEntropyLoss_fused_loss_computation b this w
              = Some (Inr (), w\<lparr>mem := (mem w)(ptr input_tensor := r, ptr loss_tensor := l)\<rparr>) \<and>
            (\<forall>i. int i < spec_batch_dim input_tensor \<longrightarrow>
               r ! i = bce_sample_grad (mem w (ptr input_tensor) ! i)
                         (mem w (ptr label_tensor) ! i)
                         (spec_batch_dim input_tensor) (scaler_of b))))"
proof (intro conjI impI)
  assume a: "spec_feature_dim input_tensor = 2 \<and> length (dims label_tensor) = 2 \<and>
          spec_batch_dim label_tensor = spec_batch_dim input_tensor"
  then have chk: "CrossEntropyLoss_checks input_tensor label_tensor
           = Inr (spec_batch_dim input_tensor, 2, format input_tensor = HW)"
    using assms(4,5) by (simp add: CrossEntropyLoss_checks_pass)
  have sz: "nat (2 * spec_batch_dim input_tensor) \<le> length (mem w (ptr input_tensor))"
    using a assms(11) by simp
  from CrossEntropyLoss_fused_result [OF assms(1,2,3) chk assms(6,7,8,9,10) sz assms(12,13), of b]
  show "\<exists>r l. CrossEntropyLoss_fused_loss_computation b this w
              = Some (Inr (), w\<lparr>mem := (mem w)(ptr input_tensor := r, ptr loss_tensor := l)\<rparr>) \<and>
            (\<forall>i. int i < spec_batch_dim input_tensor \<longrightarrow>
               r ! ce_id1 (format input_tensor = HW) 2 i
                 = ce_sample_grad0
                     (mem w (ptr input_tensor) ! ce_id1 (format input_tensor = HW) 2 i)
                     (mem w (ptr input_tensor)
                        ! ce_id2 (format input_tensor = HW) 2 (spec_batch_dim input_tensor) i)
                     (mem w (ptr label_tensor) ! i)
                     (spec_batch_dim input_tensor) (scaler_of b) \<and>
               r ! ce_id2 (format input_tensor = HW) 2 (spec_batch_dim input_tensor) i
                 = ce_sample_grad1
                     (mem w (ptr input_tensor) ! ce_id1 (format input_tensor = HW) 2 i)
                     (mem w (ptr input_tensor)
                        ! ce_id2 (format input_tensor = HW) 2 (spec_batch_dim input_tensor) i)
                     (mem w (ptr label_tensor) ! i)
                     (spec_batch_dim input_tensor) (scaler_of b))"
    by blast
next
  assume a: "spec_feature_dim input_tensor = 1"
  then have chk: "BinaryCrossEntropyLoss_checks input_tensor label_tensor
           = Inr (spec_batch_dim input_tensor)"
    using assms(4,5) by (simp add: BinaryCrossEntropyLoss_checks_pass)
  have sz: "nat (spec_batch_dim input_tensor) \<le> length (mem w (ptr input_tensor))"
    using a assms(11) by simp
  from BinaryCrossEntropyLoss_fused_result
    [OF assms(1,2,3) chk assms(6,7,8,9,10) sz assms(12,13), of b]
  show "\<exists>r l. BinaryCrossEntropyLoss_fused_loss_computation b this w
              = Some (Inr (), w\<lparr>mem := (mem w)(ptr input_tensor := r, ptr loss_tensor := l)\<rparr>) \<and>
            (\<forall>i. int i < spec_batch_dim input_tensor \<longrightarrow>
               r ! i = bce_sample_grad (mem w (ptr input_tensor) ! i)
                         (mem w (ptr label_tensor) ! i)
                         (spec_batch_dim input_tensor) (scaler_of b))"
    by blast
qed

theorem label_feature_dimension_unchecked_witness:
  "(\<exists>r l. CrossEntropyLoss_fused_loss_computation
       \<lparr>SCALE_128 = False, SCALE_256 = False, SCALE_512 = False, SCALE_1024 = False,
        NDEBUG = True\<rparr>
       \<lparr>device_id = 0,
        input_tensors = [\<lparr>dims = [2, 2], format = HW, ptr = 0\<rparr>],
        label_tensors = [\<lparr>dims = [2, 3], format = HW, ptr = 1\<rparr>],
        loss_tensors = [\<lparr>dims = [1, 1], format = HW, ptr = 2\<rparr>]\<rparr>
       \<lparr>cur_device = 0, device_count = 1,
        mem = (\<lambda>p. if p = 0 then [2, 0, 0, 2] else if p = 1 then [1, 9, 9, 0, 9, 9] else [0]),
        next_free = 3\<rparr>
     = Some (Inr (),
        \<lparr>cur_device = 0, device_count = 1,
         mem = (\<lambda>p. if p = 0 then [2, 0, 0, 2] else if p = 1 then [1, 9, 9, 0, 9, 9] else [0])
                 (0 := r, 2 := l),
         next_free = 3\<rparr>) \<and>
     r ! 0 = ce_sample_grad0 2 0 1 2 1 \<and> r ! 2 = ce_sample_grad0 0 2 9 2 1) \<and>
   (\<exists>r l. BinaryCrossEntropyLoss_fused_loss_computation
       \<lparr>SCALE_128 = False, SCALE_256 = False, SCALE_512 = False, SCALE_1024 = False,
        NDEBUG = True\<rparr>
       \<lparr>device_id = 0,
        input_tensors = [\<lparr>dims = [2, 1], format = HW, ptr = 0\<rparr>],
        label_tensors = [\<lparr>dims = [2, 3], format = HW, ptr = 1\<rparr>],
        loss_tensors = [\<lparr>dims = [1, 1], format = HW, ptr = 2\<rparr>]\<rparr>
       \<lparr>cur_device = 0, device_count = 1,
        mem = (\<lambda>p. if p = 0 then [2, 0] else if p = 1 then [1, 9, 9, 0, 9, 9] else [0]),
        next_free = 3\<rparr>
     = Some (Inr (),
        \<lparr>cur_device = 0, device_count = 1,
         mem = (\<lambda>p. if p = 0 then [2, 0] else if p = 1 then [1, 9, 9, 0, 9, 9] else [0])
                 (0 := r, 2 := l),
         next_free = 3\<rparr>) \<and>
     r ! 1 = bce_sample_grad 0 9 2 1)"
proof -
  let ?b = "\<lparr>SCALE_128 = False, SCALE_256 = False, SCALE_512 = False, SCALE_1024 = False,
        NDEBUG = True\<rparr>"
  let ?ce = "\<lparr>device_id = 0,
        input_tensors = [\<lparr>dims = [2, 2], format = HW, ptr = 0\<rparr>],
        label_tensors = [\<lparr>dims = [2, 3], format = HW, ptr = 1\<rparr>],
        loss_tensors = [\<lparr>dims = [1, 1], format = HW, ptr = 2\<rparr>]\<rparr>"
  let ?w = "\<lparr>cur_device = 0, device_count = 1,
        mem = (\<lambda>p. if p = 0 then [2, 0, 0, 2] else if p = 1 then [1, 9, 9, 0, 9, 9] else [0 :: real]),
        next_free = 3 :: nat\<rparr>"
  let ?bce = "\<lparr>device_id = 0,
        input_tensors = [\<lparr>dims = [2, 1], format = HW, ptr = 0\<rparr>],
        label_tensors = [\<lparr>dims = [2, 3], format = HW, ptr = 1\<rparr>],
        loss_tensors = [\<lparr>dims = [1, 1], format = HW, ptr = 2\<rparr>]\<rparr>"
  let ?w2 = "\<lparr>cur_device = 0, device_count = 1,
        mem = (\<lambda>p. if p = 0 then [2, 0] else if p = 1 then [1, 9, 9, 0, 9, 9] else [0 :: real]),
        next_free = 3 :: nat\<rparr>"
  from label_feature_dimension_unchecked
    [of ?ce "\<lparr>dims = [2, 2], format = HW, ptr = 0\<rparr>" "\<lparr>dims = [2, 3], format = HW, ptr = 1\<rparr>"
        "\<lparr>dims = [1, 1], format = HW, ptr = 2\<rparr>" ?w ?b]
  obtain r l where
    c: "CrossEntropyLoss_fused_loss_computation ?b ?ce ?w
          = Some (Inr (), ?w\<lparr>mem := (mem ?w)(0 := r, 2 := l)\<rparr>)"
    and ci: "\<forall>i. int i < 2 \<longrightarrow>
       r ! ce_id1 True 2 i = ce_sample_grad0 ([2, 0, 0, 2] ! ce_id1 True 2 i)
           ([2, 0, 0, 2] ! ce_id2 True 2 2 i) ([1, 9, 9, 0, 9, 9] ! i) 2 1 \<and>
       r ! ce_id2 True 2 2 i = ce_sample_grad1 ([2, 0, 0, 2] ! ce_id1 True 2 i)
           ([2, 0, 0, 2] ! ce_id2 True 2 2 i) ([1, 9, 9, 0, 9, 9] ! i) 2 1"
    by (auto simp: spec_batch_dim_def spec_feature_dim_def scaler_of_def)
  from ci have c0: "r ! 0 = ce_sample_grad0 2 0 1 2 1"
    by (drule_tac x = 0 in spec) (simp add: ce_id1_def ce_id2_def)
  from ci have c1: "r ! 2 = ce_sample_grad0 0 2 9 2 1"
    by (drule_tac x = 1 in spec) (simp add: ce_id1_def ce_id2_def)
  from label_feature_dimension_unchecked
    [of ?bce "\<lparr>dims = [2, 1], format = HW, ptr = 0\<rparr>" "\<lparr>dims = [2, 3], format = HW, ptr = 1\<rparr>"
        "\<lparr>dims = [1, 1], format = HW, ptr = 2\<rparr>" ?w2 ?b]
  obtain r' l' where
    d: "BinaryCrossEntropyLoss_fused_loss_computation ?b ?bce ?w2
          = Some (Inr (), ?w2\<lparr>mem := (mem ?w2)(0 := r', 2 := l')\<rparr>)"
    and di: "\<forall>i. int i < 2 \<longrightarrow>
       r' ! i = bce_sample_grad ([2, 0] ! i) ([1, 9, 9, 0, 9, 9] ! i) 2 1"
    by (auto simp: spec_batch_dim_def spec_feature_dim_def scaler_of_def)
  from di have d1: "r' ! 1 = bce_sample_grad 0 9 2 1"
    by (drule_tac x = 1 in spec) simp
  from c c0 c1 d d1 show ?thesis by auto
qed

subsection \<open>The scaler\<close>































end
